theory Spec2Isabelle
  imports
    Main
    "HOL-Library.Multiset"
    "HOL-Library.Char_ord"
    "HOL-Library.List_Lexorder"
begin

section \<open>The cluster view\<close>

text \<open>
  The Go program reads Kubernetes objects. Only the fields the program reads are kept,
  under the names of the Go fields (\<open>pod.Spec.NodeName\<close> is \<open>NodeName\<close>,
  \<open>pod.Status.Phase\<close> is \<open>Phase\<close>). Go's \<open>int\<close> is modelled by \<open>int\<close>: the
  counters count the evictions of one cycle, far from the ends of the 64-bit range;
  where a statement reads the result of an operation that can leave the range, the
  subtraction in \<open>calculateMaxEvictions\<close>, the wrap-around is written out. A pointer that may
  be nil is an \<open>option\<close>. A Go map that the program only reads by key is a partial
  function; a Go map that the program also iterates over or measures with \<open>len\<close> is an
  association list whose order stands for the iteration order, which Go leaves open.
\<close>

record OwnerReference =
  owner_Kind :: string
  owner_Name :: string

record Container =
  Image :: string

record Volume =
  volume_Name :: string
  HostPath :: "string option"
  EmptyDir :: "string option"

type_synonym PodPhase = string

abbreviation PodPending :: PodPhase where "PodPending \<equiv> ''Pending''"
abbreviation PodRunning :: PodPhase where "PodRunning \<equiv> ''Running''"
abbreviation PodSucceeded :: PodPhase where "PodSucceeded \<equiv> ''Succeeded''"
abbreviation PodFailed :: PodPhase where "PodFailed \<equiv> ''Failed''"

record Pod =
  Namespace :: string
  Name :: string
  OwnerReferences :: "OwnerReference list"
  Annotations :: "string \<rightharpoonup> string"
  DeletionTimestamp :: "int option"
  CreationTimestamp :: int
  NodeName :: string
  PriorityClassName :: string
  Priority :: "int option"
  Containers :: "Container list"
  Volumes :: "Volume list"
  Phase :: PodPhase
  Reason :: string

record NodeCondition =
  condition_Type :: string
  condition_Status :: string

record Node =
  node_Name :: string
  Labels :: "string \<rightharpoonup> string"
  Unschedulable :: bool
  Conditions :: "NodeCondition list"

section \<open>Configuration\<close>

record EvictionLimits =
  MaxPodsToEvictPerNode :: int
  MaxPodsToEvictPerNamespace :: int
  MaxPodsToEvictTotal :: int

record ResourceThresholds =
  CPU :: int
  Memory :: int
  Pods :: int

record RemoveFailedPodsConfig =
  failed_Enabled :: bool
  MinPodLifetimeSeconds :: int
  failed_ExcludeOwnerKinds :: "string list"
  failed_IncludedNamespaces :: "string list"
  failed_ExcludedNamespaces :: "string list"

record LowNodeUtilizationConfig =
  low_Enabled :: bool
  Thresholds :: ResourceThresholds
  TargetThresholds :: ResourceThresholds
  NumberOfNodes :: int

record RemoveDuplicatesConfig =
  dup_Enabled :: bool
  ExcludeOwnerKinds :: "string list"
  IncludedNamespaces :: "string list"
  ExcludedNamespaces :: "string list"

record StrategiesConfig =
  RemoveFailedPods :: "RemoveFailedPodsConfig option"
  LowNodeUtilization :: "LowNodeUtilizationConfig option"
  RemoveDuplicates :: "RemoveDuplicatesConfig option"

text \<open>\<open>Interval\<close> is a \<open>time.Duration\<close>: a number of nanoseconds.\<close>

record Config =
  Interval :: int
  DryRun :: bool
  NodeSelector :: "(string \<times> string) list"
  Limits :: EvictionLimits
  Strategies :: StrategiesConfig
  LogLevel :: string

section \<open>Formatting\<close>

text \<open>The verb \<open>%d\<close> of \<open>fmt\<close>, and \<open>strings.Join\<close>.\<close>

fun show_nat :: "nat \<Rightarrow> string" where
  "show_nat n =
     (if n < 10 then [''0123456789'' ! n]
      else show_nat (n div 10) @ [''0123456789'' ! (n mod 10)])"

declare show_nat.simps [simp del]

definition show_int :: "int \<Rightarrow> string" where
  "show_int i = (if i < 0 then ''-'' @ show_nat (nat (- i)) else show_nat (nat i))"

fun Join :: "string list \<Rightarrow> string \<Rightarrow> string" where
  "Join [] sep = ''''"
| "Join [x] sep = x"
| "Join (x # y # ys) sep = x @ sep @ Join (y # ys) sep"

fun Contains :: "string list \<Rightarrow> string \<Rightarrow> bool" where
  "Contains [] item = False"
| "Contains (s # slice) item = (if s = item then True else Contains slice item)"

section \<open>The eviction gatekeeper (pkg/eviction/evictor.go)\<close>

subsection \<open>Statistics, errors, the log and the platform\<close>

type_synonym counters = "(string \<times> int) list"

record EvictionStats =
  TotalEvicted :: int
  EvictedByNode :: counters
  EvictedByNamespace :: counters
  EvictedByReason :: counters
  FailedEvictions :: int

text \<open>Reading a Go map at a key gives the zero value when the key is absent.\<close>

definition lookup0 :: "counters \<Rightarrow> string \<Rightarrow> int" where
  "lookup0 m k = (case map_of m k of None \<Rightarrow> 0 | Some v \<Rightarrow> v)"

text \<open>\<open>m[k] = v\<close>: an existing key keeps its place, a new key is added.\<close>

fun assign :: "(string \<times> 'v) list \<Rightarrow> string \<Rightarrow> 'v \<Rightarrow> (string \<times> 'v) list" where
  "assign [] k v = [(k, v)]"
| "assign ((k', v') # m) k v = (if k' = k then (k, v) # m else (k', v') # assign m k v)"

text \<open>\<open>m[k]++\<close>\<close>

definition incr :: "counters \<Rightarrow> string \<Rightarrow> counters" where
  "incr m k = assign m k (lookup0 m k + 1)"

definition keys :: "(string \<times> 'v) list \<Rightarrow> string set" where
  "keys m = fst ` set m"

text \<open>
  The errors the program returns, with the text \<open>fmt.Errorf\<close> gives them. An error
  of the platform's API, of the file system or of the YAML parser is the text of that
  error; \<open>Canceled\<close> is the \<open>ctx.Err()\<close> of a cancelled context.
\<close>

datatype error =
    TotalLimit int
  | NodeLimit string int
  | NamespaceLimit string int
  | EvictFailed string string string
  | GetPodsFailed string string
  | GroupFailed error
  | GetNodesFailed string
  | Canceled
  | ReadFailed string
  | ParseFailed string
  | DefaultsFailed error
  | InvalidConfig error
  | InvalidThresholds error
  | InvalidTargetThresholds error
  | Invalid string

fun Error :: "error \<Rightarrow> string" where
  "Error (TotalLimit n) = ''reached total eviction limit: '' @ show_int n"
| "Error (NodeLimit node n) =
     ''reached node '' @ node @ '' eviction limit: '' @ show_int n"
| "Error (NamespaceLimit ns n) =
     ''reached namespace '' @ ns @ '' eviction limit: '' @ show_int n"
| "Error (EvictFailed ns name err) =
     ''failed to evict pod '' @ ns @ ''/'' @ name @ '': '' @ err"
| "Error (GetPodsFailed node err) = ''failed to get pods on node '' @ node @ '': '' @ err"
| "Error (GroupFailed err) = ''failed to group pods by signature: '' @ Error err"
| "Error (GetNodesFailed err) = ''failed to get available nodes: '' @ err"
| "Error Canceled = ''context canceled''"
| "Error (ReadFailed err) = ''failed to read config file: '' @ err"
| "Error (ParseFailed err) = ''failed to parse config file: '' @ err"
| "Error (DefaultsFailed err) = ''failed to set default values: '' @ Error err"
| "Error (InvalidConfig err) = ''invalid config: '' @ Error err"
| "Error (InvalidThresholds err) = ''invalid thresholds: '' @ Error err"
| "Error (InvalidTargetThresholds err) = ''invalid targetThresholds: '' @ Error err"
| "Error (Invalid msg) = msg"

text \<open>
  A line of the log: \<open>Infof v\<close> is \<open>klog.V(v).Infof\<close> (\<open>klog.Infof\<close> is \<open>Infof 0\<close>),
  \<open>Errorf\<close> is \<open>klog.Errorf\<close>.
\<close>

datatype log_line = Infof nat string | Errorf string

record Eviction =
  eviction_Name :: string
  eviction_Namespace :: string
  GracePeriodSeconds :: int

text \<open>
  The platform is an input of the model. Each answer may depend on the eviction
  requests sent so far: \<open>Nodes_List\<close> answers \<open>Nodes().List\<close>, \<open>Pods_List\<close> answers
  \<open>Pods("").List\<close> with the field selector \<open>spec.nodeName=<node>\<close>, \<open>Evict\<close> answers
  \<open>Evictions(ns).Evict\<close> (\<open>None\<close> is Go's nil error, \<open>Some\<close> the error's text).
\<close>

record client =
  Nodes_List :: "Eviction list \<Rightarrow> string + Node list"
  Pods_List :: "Eviction list \<Rightarrow> string \<Rightarrow> string + Pod list"
  Evict :: "Eviction list \<Rightarrow> Eviction \<Rightarrow> string option"

text \<open>
  What the gatekeeper changes: its statistics, the log, and the eviction requests that
  reached the platform. All its methods run under one mutex, so a run of the program
  is a sequence of whole calls.
\<close>

record state =
  stats :: EvictionStats
  klog :: "log_line list"
  requests :: "Eviction list"

definition emit :: "log_line \<Rightarrow> state \<Rightarrow> state" where
  "emit l st = st\<lparr>klog := klog st @ [l]\<rparr>"

definition empty_stats :: EvictionStats where
  "empty_stats =
     \<lparr>TotalEvicted = 0, EvictedByNode = [], EvictedByNamespace = [],
      EvictedByReason = [], FailedEvictions = 0\<rparr>"

definition NewDefaultPodEvictor :: state where
  "NewDefaultPodEvictor = \<lparr>stats = empty_stats, klog = [], requests = []\<rparr>"

definition gracePeriod :: int where
  "gracePeriod = 30"

subsection \<open>Safety: CanEvictPod\<close>

fun isSystemNamespace :: "string list \<Rightarrow> string \<Rightarrow> bool" where
  "isSystemNamespace [] namespace = False"
| "isSystemNamespace (ns # systemNamespaces) namespace =
     (if namespace = ns then True else isSystemNamespace systemNamespaces namespace)"

definition isSystemCriticalPod :: "Pod \<Rightarrow> bool" where
  "isSystemCriticalPod pod =
     (if PriorityClassName pod = ''system-cluster-critical''
         \<or> PriorityClassName pod = ''system-node-critical''
      then True
      else isSystemNamespace [''kube-system'', ''kube-public'', ''kube-node-lease'']
             (Namespace pod))"

fun isDaemonSetOwner :: "OwnerReference list \<Rightarrow> bool" where
  "isDaemonSetOwner [] = False"
| "isDaemonSetOwner (owner # owners) =
     (if owner_Kind owner = ''DaemonSet'' then True else isDaemonSetOwner owners)"

definition isDaemonSetPod :: "Pod \<Rightarrow> bool" where
  "isDaemonSetPod pod = isDaemonSetOwner (OwnerReferences pod)"

definition isStaticPod :: "Pod \<Rightarrow> bool" where
  "isStaticPod pod =
     (case Annotations pod ''kubernetes.io/config.source'' of
        None \<Rightarrow> False
      | Some source \<Rightarrow> source = ''file'')"

definition isStandalonePod :: "Pod \<Rightarrow> bool" where
  "isStandalonePod pod = (length (OwnerReferences pod) = 0)"

fun isLocalVolume :: "Volume list \<Rightarrow> bool" where
  "isLocalVolume [] = False"
| "isLocalVolume (volume # volumes) =
     (if HostPath volume \<noteq> None \<or> EmptyDir volume \<noteq> None then True
      else isLocalVolume volumes)"

definition hasLocalStorage :: "Pod \<Rightarrow> bool" where
  "hasLocalStorage pod = isLocalVolume (Volumes pod)"

definition CanEvictPod :: "Pod \<Rightarrow> bool \<times> string" where
  "CanEvictPod pod =
     (if isSystemCriticalPod pod then (False, ''system critical pod'')
      else if isDaemonSetPod pod then (False, ''daemonset pod'')
      else if isStaticPod pod then (False, ''static pod'')
      else if isStandalonePod pod \<and> Phase pod \<noteq> PodFailed
        then (False, ''standalone pod (not failed)'')
      else if DeletionTimestamp pod \<noteq> None then (False, ''pod is being deleted'')
      else if hasLocalStorage pod then (False, ''pod has local storage'')
      else (True, ''''))"

subsection \<open>Quota and execution: EvictPod\<close>

definition checkEvictionLimits :: "Config \<Rightarrow> EvictionStats \<Rightarrow> Pod \<Rightarrow> error option" where
  "checkEvictionLimits config s pod =
     (let limits = Limits config in
      if MaxPodsToEvictTotal limits > 0 \<and> TotalEvicted s \<ge> MaxPodsToEvictTotal limits
      then Some (TotalLimit (MaxPodsToEvictTotal limits))
      else if (MaxPodsToEvictPerNode limits > 0 \<and> NodeName pod \<noteq> '''')
            \<and> lookup0 (EvictedByNode s) (NodeName pod) \<ge> MaxPodsToEvictPerNode limits
      then Some (NodeLimit (NodeName pod) (MaxPodsToEvictPerNode limits))
      else if MaxPodsToEvictPerNamespace limits > 0
            \<and> lookup0 (EvictedByNamespace s) (Namespace pod)
                \<ge> MaxPodsToEvictPerNamespace limits
      then Some (NamespaceLimit (Namespace pod) (MaxPodsToEvictPerNamespace limits))
      else None)"

definition updateStats :: "Pod \<Rightarrow> string \<Rightarrow> bool \<Rightarrow> EvictionStats \<Rightarrow> EvictionStats" where
  "updateStats pod reason success s =
     (if success then
        (let s1 = s\<lparr>TotalEvicted := TotalEvicted s + 1\<rparr>;
             s2 = (if NodeName pod \<noteq> ''''
                   then s1\<lparr>EvictedByNode := incr (EvictedByNode s1) (NodeName pod)\<rparr>
                   else s1);
             s3 = s2\<lparr>EvictedByNamespace := incr (EvictedByNamespace s2) (Namespace pod)\<rparr>
         in s3\<lparr>EvictedByReason := incr (EvictedByReason s3) reason\<rparr>)
      else s)"

definition EvictPod :: "client \<Rightarrow> Config \<Rightarrow> Pod \<Rightarrow> string \<Rightarrow> state \<Rightarrow> error option \<times> state" where
  "EvictPod cl config pod reason st =
     (case checkEvictionLimits config (stats st) pod of
        Some err \<Rightarrow> (Some err, st)
      | None \<Rightarrow>
          if DryRun config then
            (let st1 = emit (Infof 0 (''[DryRun] Would evict pod '' @ Namespace pod @ ''/''
                          @ Name pod @ '' on node '' @ NodeName pod
                          @ '', reason: '' @ reason)) st
             in (None, st1\<lparr>stats := updateStats pod reason True (stats st1)\<rparr>))
          else
            (let eviction = \<lparr>eviction_Name = Name pod, eviction_Namespace = Namespace pod,
                              GracePeriodSeconds = gracePeriod\<rparr>;
                 err = Evict cl (requests st) eviction;
                 st1 = st\<lparr>requests := requests st @ [eviction]\<rparr>
             in case err of
                  Some e \<Rightarrow>
                    (let st2 = st1\<lparr>stats := (stats st1)
                                 \<lparr>FailedEvictions := FailedEvictions (stats st1) + 1\<rparr>\<rparr>;
                         st3 = emit (Errorf (''Failed to evict pod '' @ Namespace pod @ ''/''
                                       @ Name pod @ '': '' @ e)) st2
                     in (Some (EvictFailed (Namespace pod) (Name pod) e), st3))
                | None \<Rightarrow>
                    (let st2 = emit (Infof 0 (''Successfully evicted pod '' @ Namespace pod
                                       @ ''/'' @ Name pod @ '' on node '' @ NodeName pod
                                       @ '', reason: '' @ reason)) st1
                     in (None, st2\<lparr>stats := updateStats pod reason True (stats st2)\<rparr>))))"

definition GetEvictionStats :: "state \<Rightarrow> EvictionStats" where
  "GetEvictionStats st =
     \<lparr>TotalEvicted = TotalEvicted (stats st),
      EvictedByNode = EvictedByNode (stats st),
      EvictedByNamespace = EvictedByNamespace (stats st),
      EvictedByReason = EvictedByReason (stats st),
      FailedEvictions = FailedEvictions (stats st)\<rparr>"

definition ResetStats :: "state \<Rightarrow> state" where
  "ResetStats st = st\<lparr>stats := empty_stats\<rparr>"

text \<open>
  A run of the gatekeeper within a cycle: any sequence of \<open>EvictPod\<close> and
  \<open>ResetStats\<close> calls, each a whole call.
\<close>

datatype operation = Evict_op Pod string | Reset_op

fun run :: "client \<Rightarrow> Config \<Rightarrow> operation list \<Rightarrow> state \<Rightarrow> state" where
  "run cl config [] st = st"
| "run cl config (Evict_op pod reason # ops) st =
     run cl config ops (snd (EvictPod cl config pod reason st))"
| "run cl config (Reset_op # ops) st = run cl config ops (ResetStats st)"

section \<open>Cluster view helpers (pkg/utils)\<close>

record NodeResourceUtilization =
  util_NodeName :: string
  CPUUsage :: int
  MemoryUsage :: int
  PodsCount :: int
  CPUPercent :: int
  MemoryPercent :: int
  PodsPercent :: int

text \<open>
  \<open>sort.Strings\<close> orders strings byte by byte, a proper prefix first: the order of
  \<open>char list\<close> here. Equal strings cannot be told apart, so the sorted list is the one
  \<open>sort\<close> gives.
\<close>

definition GetPodImages :: "Pod \<Rightarrow> string list" where
  "GetPodImages pod = sort (map Image (Containers pod))"

definition GeneratePodSignature :: "Pod \<Rightarrow> string" where
  "GeneratePodSignature pod =
     (let parts = [Namespace pod];
          parts = parts @ map (\<lambda>owner. owner_Kind owner @ '':'' @ owner_Name owner)
                            (OwnerReferences pod);
          images = GetPodImages pod;
          parts = parts @ [Join images '','']
      in Join parts ''|'')"

fun IsReadyCondition :: "NodeCondition list \<Rightarrow> bool" where
  "IsReadyCondition [] = False"
| "IsReadyCondition (condition # conditions) =
     (if condition_Type condition = ''Ready'' then condition_Status condition = ''True''
      else IsReadyCondition conditions)"

definition IsReadyNode :: "Node \<Rightarrow> bool" where
  "IsReadyNode node = IsReadyCondition (Conditions node)"

definition IsSchedulableNode :: "Node \<Rightarrow> bool" where
  "IsSchedulableNode node = (\<not> Unschedulable node)"

definition FilterReadySchedulableNodes :: "Node list \<Rightarrow> Node list" where
  "FilterReadySchedulableNodes nodes =
     filter (\<lambda>node. IsReadyNode node \<and> IsSchedulableNode node) nodes"

section \<open>Strategy LowNodeUtilization: evicting from over-utilized nodes\<close>

text \<open>
  The package's own \<open>max\<close> and \<open>min\<close> on \<open>int\<close>, and Go's integer division, which
  truncates towards zero.
\<close>

definition max_go :: "int \<Rightarrow> int \<Rightarrow> int" where
  "max_go a b = (if a > b then a else b)"

definition min_go :: "int \<Rightarrow> int \<Rightarrow> int" where
  "min_go a b = (if a < b then a else b)"

definition quot :: "int \<Rightarrow> int \<Rightarrow> int" where
  "quot a b = sgn a * sgn b * (\<bar>a\<bar> div \<bar>b\<bar>)"

text \<open>
  The percentages and the thresholds are Go \<open>int\<close>s of 64 bits, and here a claim reads
  the result of a subtraction as a number: the subtraction wraps around when the
  difference leaves the range, which \<open>sub64\<close> writes out.
\<close>

definition wrap64 :: "int \<Rightarrow> int" where
  "wrap64 x = (x + 2 ^ 63) mod 2 ^ 64 - 2 ^ 63"

definition sub64 :: "int \<Rightarrow> int \<Rightarrow> int" where
  "sub64 a b = wrap64 (a - b)"

definition calculateMaxEvictions :: "LowNodeUtilizationConfig \<Rightarrow> NodeResourceUtilization \<Rightarrow> int" where
  "calculateMaxEvictions cfg nodeUtil =
     (let cpuExcess = max_go 0 (sub64 (CPUPercent nodeUtil) (CPU (TargetThresholds cfg)));
          memoryExcess = max_go 0 (sub64 (MemoryPercent nodeUtil) (Memory (TargetThresholds cfg)));
          podsExcess = max_go 0 (sub64 (PodsPercent nodeUtil) (Pods (TargetThresholds cfg)));
          maxExcess = max_go cpuExcess (max_go memoryExcess podsExcess);
          evictions = max_go 1 (min_go 5 (quot maxExcess 10))
      in evictions)"

definition getPodsOnNode :: "client \<Rightarrow> state \<Rightarrow> string \<Rightarrow> string + Pod list" where
  "getPodsOnNode cl st nodeName = Pods_List cl (requests st) nodeName"

fun keepEvictable :: "Pod list \<Rightarrow> Pod list" where
  "keepEvictable [] = []"
| "keepEvictable (pod # pods) =
     (if Phase pod = PodSucceeded \<or> Phase pod = PodFailed then keepEvictable pods
      else if fst (CanEvictPod pod) then pod # keepEvictable pods
      else keepEvictable pods)"

definition getEvictablePodsOnNode :: "client \<Rightarrow> state \<Rightarrow> string \<Rightarrow> string + Pod list" where
  "getEvictablePodsOnNode cl st nodeName =
     (case getPodsOnNode cl st nodeName of
        Inl err \<Rightarrow> Inl err
      | Inr pods \<Rightarrow> Inr (keepEvictable pods))"

definition isLowPriority :: "Pod \<Rightarrow> bool" where
  "isLowPriority pod =
     (PriorityClassName pod = '''' \<or>
      (case Priority pod of None \<Rightarrow> True | Some priority \<Rightarrow> priority \<le> 0))"

definition sortPodsByPriority :: "Pod list \<Rightarrow> Pod list" where
  "sortPodsByPriority pods =
     (let lowPriorityPods = filter isLowPriority pods;
          normalPods = filter (\<lambda>pod. \<not> isLowPriority pod) pods
      in lowPriorityPods @ normalPods)"

definition utilizationText :: "NodeResourceUtilization \<Rightarrow> string" where
  "utilizationText nodeUtil =
     ''CPU='' @ show_int (CPUPercent nodeUtil) @ ''%, Memory=''
       @ show_int (MemoryPercent nodeUtil) @ ''%, Pods=''
       @ show_int (PodsPercent nodeUtil) @ ''%''"

text \<open>
  The loop over the candidates of one node. The loop variables are \<open>evicted\<close> (of this
  node), \<open>evictedCount\<close> and \<open>skippedCount\<close> (of the strategy), and the state.
\<close>

fun evictLoop ::
  "client \<Rightarrow> Config \<Rightarrow> NodeResourceUtilization \<Rightarrow> int \<Rightarrow> Pod list
     \<Rightarrow> int \<times> int \<times> int \<times> state \<Rightarrow> int \<times> int \<times> int \<times> state" where
  "evictLoop cl config nodeUtil maxEvictions [] vars = vars"
| "evictLoop cl config nodeUtil maxEvictions (pod # pods) (evicted, evictedCount, skippedCount, st) =
     (if evicted \<ge> maxEvictions then (evicted, evictedCount, skippedCount, st)
      else case CanEvictPod pod of (canEvict, reason) \<Rightarrow>
        if \<not> canEvict then
          evictLoop cl config nodeUtil maxEvictions pods
            (evicted, evictedCount, skippedCount + 1,
             emit (Infof 3 (''Skipping pod '' @ Namespace pod @ ''/'' @ Name pod @ '': ''
                     @ reason)) st)
        else
          (let evictionReason = ''Node over-utilization balancing - '' @ utilizationText nodeUtil
           in case EvictPod cl config pod evictionReason st of
                (Some err, st1) \<Rightarrow>
                  evictLoop cl config nodeUtil maxEvictions pods
                    (evicted, evictedCount, skippedCount,
                     emit (Errorf (''Failed to evict pod '' @ Namespace pod @ ''/'' @ Name pod
                             @ '': '' @ Error err)) st1)
              | (None, st1) \<Rightarrow>
                  evictLoop cl config nodeUtil maxEvictions pods
                    (evicted + 1, evictedCount + 1, skippedCount,
                     emit (Infof 2 (''Successfully evicted pod '' @ Namespace pod @ ''/''
                             @ Name pod @ '' from over-utilized node ''
                             @ util_NodeName nodeUtil)) st1)))"

fun overUtilizedLoop ::
  "client \<Rightarrow> Config \<Rightarrow> LowNodeUtilizationConfig \<Rightarrow> NodeResourceUtilization list
     \<Rightarrow> int \<times> int \<times> state \<Rightarrow> int \<times> int \<times> state" where
  "overUtilizedLoop cl config cfg [] vars = vars"
| "overUtilizedLoop cl config cfg (nodeUtil # overUtilizedNodes) (evictedCount, skippedCount, st) =
     (let st1 = emit (Infof 2 (''Processing over-utilized node: '' @ util_NodeName nodeUtil
                         @ '' ('' @ utilizationText nodeUtil @ '')'')) st
      in case getEvictablePodsOnNode cl st1 (util_NodeName nodeUtil) of
           Inl err \<Rightarrow>
             overUtilizedLoop cl config cfg overUtilizedNodes
               (evictedCount, skippedCount,
                emit (Errorf (''Failed to get evictable pods on node ''
                        @ util_NodeName nodeUtil @ '': '' @ err)) st1)
         | Inr evictablePods \<Rightarrow>
             (let sortedPods = sortPodsByPriority evictablePods;
                  maxEvictions = calculateMaxEvictions cfg nodeUtil
              in case evictLoop cl config nodeUtil maxEvictions sortedPods
                        (0, evictedCount, skippedCount, st1) of
                   (evicted, evictedCount', skippedCount', st2) \<Rightarrow>
                     overUtilizedLoop cl config cfg overUtilizedNodes
                       (evictedCount', skippedCount',
                        emit (Infof 2 (''Evicted '' @ show_int evicted @ '' pods from node ''
                                @ util_NodeName nodeUtil)) st2)))"

definition evictPodsFromOverUtilizedNodes ::
  "client \<Rightarrow> Config \<Rightarrow> LowNodeUtilizationConfig \<Rightarrow> NodeResourceUtilization list
     \<Rightarrow> state \<Rightarrow> error option \<times> state" where
  "evictPodsFromOverUtilizedNodes cl config cfg overUtilizedNodes st =
     (case overUtilizedLoop cl config cfg overUtilizedNodes (0, 0, st) of
        (evictedCount, skippedCount, st1) \<Rightarrow>
          (None, emit (Infof 0 (''LowNodeUtilization strategy completed. Evicted: ''
                         @ show_int evictedCount @ '', Skipped: '' @ show_int skippedCount))
                   st1))"

section \<open>Strategy RemoveDuplicates\<close>

definition shouldProcessNamespace :: "RemoveDuplicatesConfig \<Rightarrow> string \<Rightarrow> bool" where
  "shouldProcessNamespace cfg namespace =
     (if length (IncludedNamespaces cfg) > 0 then Contains (IncludedNamespaces cfg) namespace
      else if length (ExcludedNamespaces cfg) > 0
        then \<not> Contains (ExcludedNamespaces cfg) namespace
      else True)"

fun hasExcludedOwner :: "string list \<Rightarrow> OwnerReference list \<Rightarrow> bool" where
  "hasExcludedOwner kinds [] = False"
| "hasExcludedOwner kinds (ownerRef # ownerRefs) =
     (if Contains kinds (owner_Kind ownerRef) then True else hasExcludedOwner kinds ownerRefs)"

definition shouldProcessPod :: "RemoveDuplicatesConfig \<Rightarrow> Pod \<Rightarrow> bool" where
  "shouldProcessPod cfg pod =
     (if length (OwnerReferences pod) = 0 then False
      else if length (ExcludeOwnerKinds cfg) > 0
             \<and> hasExcludedOwner (ExcludeOwnerKinds cfg) (OwnerReferences pod)
        then False
      else True)"

fun keepProcessable :: "RemoveDuplicatesConfig \<Rightarrow> Pod list \<Rightarrow> Pod list" where
  "keepProcessable cfg [] = []"
| "keepProcessable cfg (pod # items) =
     (if Phase pod \<noteq> PodRunning then keepProcessable cfg items
      else if \<not> shouldProcessNamespace cfg (Namespace pod) then keepProcessable cfg items
      else if \<not> shouldProcessPod cfg pod then keepProcessable cfg items
      else pod # keepProcessable cfg items)"

definition getProcessablePods ::
  "client \<Rightarrow> RemoveDuplicatesConfig \<Rightarrow> state \<Rightarrow> string \<Rightarrow> string + Pod list" where
  "getProcessablePods cl cfg st nodeName =
     (case Pods_List cl (requests st) nodeName of
        Inl err \<Rightarrow> Inl err
      | Inr items \<Rightarrow> Inr (keepProcessable cfg items))"

text \<open>
  \<open>podGroups[signature][nodeName]\<close> is the list of the pods of that signature on that
  node. Reading a missing node gives the nil slice, reading a missing signature the nil
  map, which the program replaces by a new map before it writes.
\<close>

type_synonym nodePods = "(string \<times> Pod list) list"
type_synonym podGroups = "(string \<times> nodePods) list"

definition podsOn :: "nodePods \<Rightarrow> string \<Rightarrow> Pod list" where
  "podsOn nodePodsMap nodeName =
     (case map_of nodePodsMap nodeName of None \<Rightarrow> [] | Some pods \<Rightarrow> pods)"

definition nodesOf :: "podGroups \<Rightarrow> string \<Rightarrow> nodePods" where
  "nodesOf groups signature =
     (case map_of groups signature of None \<Rightarrow> [] | Some nodePodsMap \<Rightarrow> nodePodsMap)"

fun groupPods :: "string \<Rightarrow> Pod list \<Rightarrow> podGroups \<Rightarrow> podGroups" where
  "groupPods nodeName [] groups = groups"
| "groupPods nodeName (pod # pods) groups =
     (let signature = GeneratePodSignature pod;
          nodePodsMap = nodesOf groups signature
      in groupPods nodeName pods
           (assign groups signature
              (assign nodePodsMap nodeName (podsOn nodePodsMap nodeName @ [pod]))))"

fun groupNodes ::
  "client \<Rightarrow> RemoveDuplicatesConfig \<Rightarrow> Node list \<Rightarrow> podGroups \<times> state
     \<Rightarrow> (error + podGroups) \<times> state" where
  "groupNodes cl cfg [] (groups, st) = (Inr groups, st)"
| "groupNodes cl cfg (node # nodes) (groups, st) =
     (let st1 = emit (Infof 2 (''Processing node: '' @ node_Name node)) st
      in case getProcessablePods cl cfg st1 (node_Name node) of
           Inl err \<Rightarrow> (Inl (GetPodsFailed (node_Name node) err), st1)
         | Inr pods \<Rightarrow> groupNodes cl cfg nodes (groupPods (node_Name node) pods groups, st1))"

definition groupPodsBySignature ::
  "client \<Rightarrow> RemoveDuplicatesConfig \<Rightarrow> Node list \<Rightarrow> state \<Rightarrow> (error + podGroups) \<times> state" where
  "groupPodsBySignature cl cfg nodes st = groupNodes cl cfg nodes ([], st)"

fun collectDuplicateNodes :: "nodePods \<Rightarrow> string list \<Rightarrow> string list" where
  "collectDuplicateNodes [] duplicateNodes = duplicateNodes"
| "collectDuplicateNodes ((nodeName, pods) # rest) duplicateNodes =
     (if length pods > 1 then collectDuplicateNodes rest (duplicateNodes @ [nodeName])
      else collectDuplicateNodes rest duplicateNodes)"

fun findMaxNode :: "nodePods \<Rightarrow> nat \<times> string \<Rightarrow> nat \<times> string" where
  "findMaxNode [] (maxPods, maxNode) = (maxPods, maxNode)"
| "findMaxNode ((nodeName, pods) # rest) (maxPods, maxNode) =
     (if length pods > maxPods then findMaxNode rest (length pods, nodeName)
      else findMaxNode rest (maxPods, maxNode))"

definition findDuplicateNodes :: "nodePods \<Rightarrow> string list" where
  "findDuplicateNodes nodePodsMap =
     (if length nodePodsMap < 2 then []
      else
        (let duplicateNodes = collectDuplicateNodes nodePodsMap []
         in if length duplicateNodes = 0 \<and> length nodePodsMap > 1 then
              (case findMaxNode nodePodsMap (0, '''') of
                 (maxPods, maxNode) \<Rightarrow>
                   if maxNode \<noteq> '''' then duplicateNodes @ [maxNode] else duplicateNodes)
            else duplicateNodes))"

text \<open>
  \<open>sortPodsByAge\<close> is a bubble sort on a copy of the slice. \<open>After t u\<close> is
  \<open>t.After(u)\<close> on creation times. Inside the inner loop \<open>j + 1 < len(sortedPods)\<close>,
  so every read is in range.
\<close>

definition After :: "int \<Rightarrow> int \<Rightarrow> bool" where
  "After t u = (t > u)"

function sortPodsByAge_inner :: "nat \<Rightarrow> nat \<Rightarrow> Pod list \<Rightarrow> Pod list" where
  "sortPodsByAge_inner i j sortedPods =
     (if j < length sortedPods - i - 1 then
        sortPodsByAge_inner i (j + 1)
          (if After (CreationTimestamp (sortedPods ! j)) (CreationTimestamp (sortedPods ! (j + 1)))
           then sortedPods[j := sortedPods ! (j + 1), j + 1 := sortedPods ! j]
           else sortedPods)
      else sortedPods)"
  by pat_completeness auto
termination
  by (relation "measure (\<lambda>(i, j, sortedPods). length sortedPods - i - 1 - j)") auto

declare sortPodsByAge_inner.simps [simp del]

text \<open>
  The outer loop runs while \<open>i < len(sortedPods) - 1\<close>; the length never changes, and is
  the argument \<open>n\<close> here.
\<close>

function sortPodsByAge_outer :: "nat \<Rightarrow> nat \<Rightarrow> Pod list \<Rightarrow> Pod list" where
  "sortPodsByAge_outer n i sortedPods =
     (if i < n - 1 then sortPodsByAge_outer n (i + 1) (sortPodsByAge_inner i 0 sortedPods)
      else sortedPods)"
  by pat_completeness auto
termination
  by (relation "measure (\<lambda>(n, i, sortedPods). n - 1 - i)") auto

declare sortPodsByAge_outer.simps [simp del]

definition sortPodsByAge :: "Pod list \<Rightarrow> Pod list" where
  "sortPodsByAge pods = sortPodsByAge_outer (length pods) 0 pods"

text \<open>
  The three loops of \<open>Execute\<close>: over the pods of one duplicate node from index 1, over
  the duplicate nodes of one signature, and over the signatures. The loop variables are
  \<open>evictedCount\<close>, \<open>skippedCount\<close> and the state.
\<close>

function evictDuplicates ::
  "client \<Rightarrow> Config \<Rightarrow> string \<Rightarrow> Pod list \<Rightarrow> nat \<Rightarrow> int \<times> int \<times> state
     \<Rightarrow> int \<times> int \<times> state" where
  "evictDuplicates cl config nodeName sortedPods i (evictedCount, skippedCount, st) =
     (if i < length sortedPods then
        (let pod = sortedPods ! i
         in case CanEvictPod pod of (canEvict, reason) \<Rightarrow>
           if \<not> canEvict then
             evictDuplicates cl config nodeName sortedPods (i + 1)
               (evictedCount, skippedCount + 1,
                emit (Infof 3 (''Skipping duplicate pod '' @ Namespace pod @ ''/'' @ Name pod
                        @ '': '' @ reason)) st)
           else
             (let evictionReason =
                    ''Duplicate pod removal - keeping oldest pod on node '' @ nodeName
              in case EvictPod cl config pod evictionReason st of
                   (Some err, st1) \<Rightarrow>
                     evictDuplicates cl config nodeName sortedPods (i + 1)
                       (evictedCount, skippedCount,
                        emit (Errorf (''Failed to evict duplicate pod '' @ Namespace pod
                                @ ''/'' @ Name pod @ '': '' @ Error err)) st1)
                 | (None, st1) \<Rightarrow>
                     evictDuplicates cl config nodeName sortedPods (i + 1)
                       (evictedCount + 1, skippedCount,
                        emit (Infof 2 (''Successfully evicted duplicate pod '' @ Namespace pod
                                @ ''/'' @ Name pod @ '' from node '' @ nodeName)) st1)))
      else (evictedCount, skippedCount, st))"
  by pat_completeness auto
termination
  by (relation "measure (\<lambda>(cl, config, nodeName, sortedPods, i, vars). length sortedPods - i)")
     auto

declare evictDuplicates.simps [simp del]

fun duplicateNodesLoop ::
  "client \<Rightarrow> Config \<Rightarrow> nodePods \<Rightarrow> string list \<Rightarrow> int \<times> int \<times> state
     \<Rightarrow> int \<times> int \<times> state" where
  "duplicateNodesLoop cl config nodePodsMap [] vars = vars"
| "duplicateNodesLoop cl config nodePodsMap (nodeName # duplicateNodes) vars =
     (let pods = podsOn nodePodsMap nodeName
      in if length pods \<le> 1 then duplicateNodesLoop cl config nodePodsMap duplicateNodes vars
         else
           (let sortedPods = sortPodsByAge pods
            in duplicateNodesLoop cl config nodePodsMap duplicateNodes
                 (evictDuplicates cl config nodeName sortedPods 1 vars)))"

fun signaturesLoop ::
  "client \<Rightarrow> Config \<Rightarrow> podGroups \<Rightarrow> int \<times> int \<times> state \<Rightarrow> int \<times> int \<times> state" where
  "signaturesLoop cl config [] vars = vars"
| "signaturesLoop cl config ((signature, nodePodsMap) # groups) (evictedCount, skippedCount, st) =
     (let st1 = emit (Infof 3 (''Processing pod signature: '' @ signature)) st;
          duplicateNodes = findDuplicateNodes nodePodsMap
      in if length duplicateNodes = 0 then
           signaturesLoop cl config groups (evictedCount, skippedCount, st1)
         else
           (let st2 = emit (Infof 2 (''Found duplicates for signature '' @ signature
                              @ '' on nodes: ['' @ Join duplicateNodes '' '' @ '']'')) st1
            in signaturesLoop cl config groups
                 (duplicateNodesLoop cl config nodePodsMap duplicateNodes
                    (evictedCount, skippedCount, st2))))"

definition RemoveDuplicates_Execute ::
  "client \<Rightarrow> Config \<Rightarrow> RemoveDuplicatesConfig \<Rightarrow> Node list \<Rightarrow> state \<Rightarrow> error option \<times> state" where
  "RemoveDuplicates_Execute cl config cfg nodes st =
     (let st1 = emit (Infof 0 ''Executing RemoveDuplicates strategy'') st
      in case groupPodsBySignature cl cfg nodes st1 of
           (Inl err, st2) \<Rightarrow> (Some (GroupFailed err), st2)
         | (Inr groups, st2) \<Rightarrow>
             (let st3 = emit (Infof 2 (''Found '' @ show_nat (length groups)
                                @ '' unique pod signatures'')) st2
              in case signaturesLoop cl config groups (0, 0, st3) of
                   (evictedCount, skippedCount, st4) \<Rightarrow>
                     (None, emit (Infof 0 (''RemoveDuplicates strategy completed. Evicted: ''
                                    @ show_int evictedCount @ '', Skipped: ''
                                    @ show_int skippedCount)) st4)))"

section \<open>The controller loop (pkg/scheduler)\<close>

text \<open>
  A strategy is a value of the interface \<open>Strategy\<close>: its name, whether it is enabled,
  and what \<open>Execute\<close> does to the state for a list of nodes.
\<close>

record Strategy =
  strategy_Name :: string
  IsEnabled :: bool
  Execute :: "Node list \<Rightarrow> state \<Rightarrow> error option \<times> state"

text \<open>
  The clock is an input as well: \<open>elapsed\<close> is the duration \<open>time.Since\<close> returns when
  it is read after the given log lines, \<open>Duration_String\<close> the text \<open>%v\<close> prints for a
  duration.
\<close>

record clock =
  elapsed :: "log_line list \<Rightarrow> int"
  Duration_String :: "int \<Rightarrow> string"

definition show_bool :: "bool \<Rightarrow> string" where
  "show_bool b = (if b then ''true'' else ''false'')"

definition emits :: "log_line list \<Rightarrow> state \<Rightarrow> state" where
  "emits ls st = st\<lparr>klog := klog st @ ls\<rparr>"

fun keepAvailable :: "Node list \<Rightarrow> Node list \<times> state \<Rightarrow> Node list \<times> state" where
  "keepAvailable [] (availableNodes, st) = (availableNodes, st)"
| "keepAvailable (node # items) (availableNodes, st) =
     (if IsReadyNode node \<and> IsSchedulableNode node then
        keepAvailable items
          (availableNodes @ [node],
           emit (Infof 2 (''Node '' @ node_Name node @ '' is available for descheduling'')) st)
      else
        keepAvailable items
          (availableNodes,
           emit (Infof 2 (''Node '' @ node_Name node @ '' is not available (ready=''
                   @ show_bool (IsReadyNode node) @ '', schedulable=''
                   @ show_bool (IsSchedulableNode node) @ '')'')) st))"

definition getAvailableNodes :: "client \<Rightarrow> state \<Rightarrow> (string + Node list) \<times> state" where
  "getAvailableNodes cl st =
     (case Nodes_List cl (requests st) of
        Inl err \<Rightarrow> (Inl err, st)
      | Inr items \<Rightarrow>
          (case keepAvailable items ([], st) of
             (availableNodes, st1) \<Rightarrow> (Inr availableNodes, st1)))"

fun selectorMatches :: "(string \<times> string) list \<Rightarrow> Node \<Rightarrow> bool" where
  "selectorMatches [] node = True"
| "selectorMatches ((key, val) # selector) node =
     (case Labels node key of
        None \<Rightarrow> False
      | Some nodeValue \<Rightarrow> if nodeValue \<noteq> val then False else selectorMatches selector node)"

definition nodeMatchesSelector :: "Config \<Rightarrow> Node \<Rightarrow> bool" where
  "nodeMatchesSelector config node = selectorMatches (NodeSelector config) node"

fun filterNodes :: "Config \<Rightarrow> Node list \<Rightarrow> Node list \<times> state \<Rightarrow> Node list \<times> state" where
  "filterNodes config [] (filteredNodes, st) = (filteredNodes, st)"
| "filterNodes config (node # nodes) (filteredNodes, st) =
     (if nodeMatchesSelector config node then
        filterNodes config nodes
          (filteredNodes @ [node],
           emit (Infof 2 (''Node '' @ node_Name node @ '' matches node selector'')) st)
      else
        filterNodes config nodes
          (filteredNodes,
           emit (Infof 2 (''Node '' @ node_Name node @ '' does not match node selector'')) st))"

definition filterNodesBySelector :: "Config \<Rightarrow> Node list \<Rightarrow> state \<Rightarrow> Node list \<times> state" where
  "filterNodesBySelector config nodes st =
     (if length (NodeSelector config) = 0 then (nodes, st)
      else filterNodes config nodes ([], st))"

definition breakdown :: "string \<Rightarrow> counters \<Rightarrow> log_line list" where
  "breakdown title m =
     (if length m > 0 then
        Infof 0 title # map (\<lambda>(k, count). Infof 0 (''  '' @ k @ '': '' @ show_int count)) m
      else [])"

definition printCycleStats :: "clock \<Rightarrow> state \<Rightarrow> state" where
  "printCycleStats clk st =
     (let duration = elapsed clk (klog st);
          stats = GetEvictionStats st
      in emits
           ([Infof 0 ''=== Cycle Statistics ==='',
             Infof 0 (''Duration: '' @ Duration_String clk duration),
             Infof 0 (''Total evicted: '' @ show_int (TotalEvicted stats)),
             Infof 0 (''Failed evictions: '' @ show_int (FailedEvictions stats))]
            @ breakdown ''Evictions by node:'' (EvictedByNode stats)
            @ breakdown ''Evictions by namespace:'' (EvictedByNamespace stats)
            @ breakdown ''Evictions by reason:'' (EvictedByReason stats)) st)"

fun strategiesLoop :: "clock \<Rightarrow> Strategy list \<Rightarrow> Node list \<Rightarrow> state \<Rightarrow> state" where
  "strategiesLoop clk [] filteredNodes st = st"
| "strategiesLoop clk (strategy # strategies) filteredNodes st =
     (if \<not> IsEnabled strategy then strategiesLoop clk strategies filteredNodes st
      else
        (let st1 = emit (Infof 0 (''--- Executing strategy: '' @ strategy_Name strategy
                           @ '' ---'')) st
         in case Execute strategy filteredNodes st1 of
              (Some err, st2) \<Rightarrow>
                strategiesLoop clk strategies filteredNodes
                  (emit (Errorf (''Strategy '' @ strategy_Name strategy @ '' failed: ''
                           @ Error err)) st2)
            | (None, st2) \<Rightarrow>
                strategiesLoop clk strategies filteredNodes
                  (emit (Infof 0 (''Strategy '' @ strategy_Name strategy @ '' completed in ''
                           @ Duration_String clk (elapsed clk (klog st2)))) st2)))"

definition runOnce ::
  "client \<Rightarrow> clock \<Rightarrow> Config \<Rightarrow> Strategy list \<Rightarrow> state \<Rightarrow> error option \<times> state" where
  "runOnce cl clk config strategies st =
     (let st1 = emit (Infof 0 ''=== Starting descheduling cycle ==='') st;
          st2 = ResetStats st1
      in case getAvailableNodes cl st2 of
           (Inl err, st3) \<Rightarrow> (Some (GetNodesFailed err), st3)
         | (Inr nodes, st3) \<Rightarrow>
             (let st4 = emit (Infof 0 (''Found '' @ show_nat (length nodes)
                                @ '' available nodes'')) st3
              in if length nodes < 2 then
                   (None, emit (Infof 0 (''Need at least 2 nodes for descheduling, found ''
                                  @ show_nat (length nodes) @ ''. Skipping cycle.'')) st4)
                 else
                   (case filterNodesBySelector config nodes st4 of
                      (filteredNodes, st5) \<Rightarrow>
                        (let st6 = emit (Infof 0 (''After node selector filtering: ''
                                           @ show_nat (length filteredNodes) @ '' nodes'')) st5
                         in if length filteredNodes = 0 then
                              (None, emit (Infof 0
                                 ''No nodes match the node selector. Skipping cycle.'') st6)
                            else
                              (let st7 = strategiesLoop clk strategies filteredNodes st6;
                                   st8 = printCycleStats clk st7
                               in (None, emit (Infof 0
                                     ''=== Descheduling cycle completed ==='') st8))))))"

text \<open>
  \<open>Run\<close> waits in a \<open>select\<close> for the context or the ticker. The list of events is
  what the \<open>select\<close> receives, in order; when the list is used up the program is still
  waiting and \<open>Run\<close> has not returned. \<open>time.NewTicker\<close> panics on a negative interval.
\<close>

datatype event = Tick | Done

datatype outcome = Returned "error option" | Panicked | Waiting

fun tickerLoop ::
  "client \<Rightarrow> clock \<Rightarrow> Config \<Rightarrow> Strategy list \<Rightarrow> event list \<Rightarrow> state \<Rightarrow> outcome \<times> state" where
  "tickerLoop cl clk config strategies [] st = (Waiting, st)"
| "tickerLoop cl clk config strategies (Done # events) st =
     (Returned (Some Canceled),
      emit (Infof 0 ''Scheduler stopped by context cancellation'') st)"
| "tickerLoop cl clk config strategies (Tick # events) st =
     (case runOnce cl clk config strategies st of
        (Some err, st1) \<Rightarrow>
          tickerLoop cl clk config strategies events
            (emit (Errorf (''Scheduler run failed: '' @ Error err)) st1)
      | (None, st1) \<Rightarrow> tickerLoop cl clk config strategies events st1)"

definition Run ::
  "client \<Rightarrow> clock \<Rightarrow> Config \<Rightarrow> Strategy list \<Rightarrow> event list \<Rightarrow> state \<Rightarrow> outcome \<times> state" where
  "Run cl clk config strategies events st =
     (let st1 = emits [Infof 0 ''Starting lightweight descheduler'',
                       Infof 0 (''Configuration: DryRun='' @ show_bool (DryRun config)
                         @ '', Interval='' @ Duration_String clk (Interval config))] st;
          st2 = (if DryRun config
                 then emit (Infof 0
                        ''Running in DRY RUN mode - no pods will actually be evicted'') st1
                 else st1)
      in if Interval config = 0 then
           (case runOnce cl clk config strategies st2 of (err, st3) \<Rightarrow> (Returned err, st3))
         else if Interval config < 0 then (Panicked, st2)
         else
           (case runOnce cl clk config strategies st2 of
              (Some err, st3) \<Rightarrow>
                tickerLoop cl clk config strategies events
                  (emit (Errorf (''Initial run failed: '' @ Error err)) st3)
            | (None, st3) \<Rightarrow> tickerLoop cl clk config strategies events st3))"

section \<open>Configuration loading (pkg/config)\<close>

definition Minute :: int where
  "Minute = 60 * 1000000000"

definition setDefaults :: "Config \<Rightarrow> error option \<times> Config" where
  "setDefaults config =
     (let c1 = (if Interval config = 0 then config\<lparr>Interval := 5 * Minute\<rparr> else config);
          c2 = (if LogLevel c1 = '''' then c1\<lparr>LogLevel := ''info''\<rparr> else c1);
          c3 = (if MaxPodsToEvictPerNode (Limits c2) = 0
                then c2\<lparr>Limits := (Limits c2)\<lparr>MaxPodsToEvictPerNode := 10\<rparr>\<rparr> else c2);
          c4 = (if MaxPodsToEvictPerNamespace (Limits c3) = 0
                then c3\<lparr>Limits := (Limits c3)\<lparr>MaxPodsToEvictPerNamespace := 5\<rparr>\<rparr> else c3);
          c5 = (if MaxPodsToEvictTotal (Limits c4) = 0
                then c4\<lparr>Limits := (Limits c4)\<lparr>MaxPodsToEvictTotal := 50\<rparr>\<rparr> else c4)
      in (None, c5))"

definition validateResourceThresholds :: "ResourceThresholds \<Rightarrow> error option" where
  "validateResourceThresholds thresholds =
     (if CPU thresholds < 0 \<or> CPU thresholds > 100
        then Some (Invalid ''CPU threshold must be between 0 and 100'')
      else if Memory thresholds < 0 \<or> Memory thresholds > 100
        then Some (Invalid ''Memory threshold must be between 0 and 100'')
      else if Pods thresholds < 0 \<or> Pods thresholds > 100
        then Some (Invalid ''Pods threshold must be between 0 and 100'')
      else None)"

definition validateStrategies :: "Config \<Rightarrow> error option" where
  "validateStrategies config =
     (case LowNodeUtilization (Strategies config) of
        None \<Rightarrow> None
      | Some low \<Rightarrow>
          if low_Enabled low then
            (case validateResourceThresholds (Thresholds low) of
               Some err \<Rightarrow> Some (InvalidThresholds err)
             | None \<Rightarrow>
                 (case validateResourceThresholds (TargetThresholds low) of
                    Some err \<Rightarrow> Some (InvalidTargetThresholds err)
                  | None \<Rightarrow> None))
          else None)"

definition validateConfig :: "Config \<Rightarrow> error option" where
  "validateConfig config =
     (if Interval config < Minute then Some (Invalid ''interval must be at least 1 minute'')
      else if MaxPodsToEvictPerNode (Limits config) < 0
        then Some (Invalid ''maxPodsToEvictPerNode must be >= 0'')
      else if MaxPodsToEvictPerNamespace (Limits config) < 0
        then Some (Invalid ''maxPodsToEvictPerNamespace must be >= 0'')
      else if MaxPodsToEvictTotal (Limits config) < 0
        then Some (Invalid ''maxPodsToEvictTotal must be >= 0'')
      else validateStrategies config)"

text \<open>
  Reading the file and parsing the YAML are inputs: \<open>ReadFile\<close> answers \<open>os.ReadFile\<close>,
  \<open>Unmarshal\<close> answers \<open>yaml.Unmarshal\<close> into a zero \<open>Config\<close>, so that a key the
  file leaves out, and an interval the file gives as \<open>0\<close>, both arrive as 0.
\<close>

definition LoadConfig ::
  "(string \<Rightarrow> string + string) \<Rightarrow> (string \<Rightarrow> string + Config) \<Rightarrow> string \<Rightarrow> error + Config" where
  "LoadConfig ReadFile Unmarshal filepath =
     (case ReadFile filepath of
        Inl err \<Rightarrow> Inl (ReadFailed err)
      | Inr data \<Rightarrow>
          (case Unmarshal data of
             Inl err \<Rightarrow> Inl (ParseFailed err)
           | Inr config \<Rightarrow>
               (case setDefaults config of
                  (Some err, config1) \<Rightarrow> Inl (DefaultsFailed err)
                | (None, config1) \<Rightarrow>
                    (case validateConfig config1 of
                       Some err \<Rightarrow> Inl (InvalidConfig err)
                     | None \<Rightarrow> Inr config1))))"

section \<open>Properties the statements below use\<close>

text \<open>
  \<open>spec_CanEvict\<close> follows the words of the specification (section 4.2): six rules in
  a fixed order, each with its reason, the first rule that matches wins. It is compared
  with \<open>CanEvictPod\<close>, which follows the source.
\<close>

definition spec_CanEvict_rules :: "((Pod \<Rightarrow> bool) \<times> string) list" where
  "spec_CanEvict_rules =
     [(\<lambda>w. PriorityClassName w \<in> {''system-cluster-critical'', ''system-node-critical''}
            \<or> Namespace w \<in> {''kube-system'', ''kube-public'', ''kube-node-lease''},
       ''system critical pod''),
      (\<lambda>w. \<exists>owner \<in> set (OwnerReferences w). owner_Kind owner = ''DaemonSet'',
       ''daemonset pod''),
      (\<lambda>w. Annotations w ''kubernetes.io/config.source'' = Some ''file'',
       ''static pod''),
      (\<lambda>w. OwnerReferences w = [] \<and> Phase w \<noteq> ''Failed'',
       ''standalone pod (not failed)''),
      (\<lambda>w. DeletionTimestamp w \<noteq> None,
       ''pod is being deleted''),
      (\<lambda>w. \<exists>v \<in> set (Volumes w). HostPath v \<noteq> None \<or> EmptyDir v \<noteq> None,
       ''pod has local storage'')]"

fun first_matching :: "((Pod \<Rightarrow> bool) \<times> string) list \<Rightarrow> Pod \<Rightarrow> bool \<times> string" where
  "first_matching [] w = (True, '''')"
| "first_matching ((rule, reason) # rules) w =
     (if rule w then (False, reason) else first_matching rules w)"

definition spec_CanEvict :: "Pod \<Rightarrow> bool \<times> string" where
  "spec_CanEvict w = first_matching spec_CanEvict_rules w"

text \<open>The three quotas: a quota is reached when its limit is positive and used up.\<close>

definition totalReached :: "Config \<Rightarrow> EvictionStats \<Rightarrow> bool" where
  "totalReached config s \<longleftrightarrow>
     0 < MaxPodsToEvictTotal (Limits config)
     \<and> MaxPodsToEvictTotal (Limits config) \<le> TotalEvicted s"

definition nodeReached :: "Config \<Rightarrow> EvictionStats \<Rightarrow> Pod \<Rightarrow> bool" where
  "nodeReached config s pod \<longleftrightarrow>
     0 < MaxPodsToEvictPerNode (Limits config) \<and> NodeName pod \<noteq> ''''
     \<and> MaxPodsToEvictPerNode (Limits config) \<le> lookup0 (EvictedByNode s) (NodeName pod)"

definition namespaceReached :: "Config \<Rightarrow> EvictionStats \<Rightarrow> Pod \<Rightarrow> bool" where
  "namespaceReached config s pod \<longleftrightarrow>
     0 < MaxPodsToEvictPerNamespace (Limits config)
     \<and> MaxPodsToEvictPerNamespace (Limits config)
         \<le> lookup0 (EvictedByNamespace s) (Namespace pod)"

text \<open>The statistics are within the limits, read at a node key and a namespace key.\<close>

definition withinLimits :: "Config \<Rightarrow> EvictionStats \<Rightarrow> string \<Rightarrow> string \<Rightarrow> bool" where
  "withinLimits config s node ns \<longleftrightarrow>
     (0 < MaxPodsToEvictTotal (Limits config)
        \<longrightarrow> TotalEvicted s \<le> MaxPodsToEvictTotal (Limits config))
     \<and> (0 < MaxPodsToEvictPerNode (Limits config)
        \<longrightarrow> lookup0 (EvictedByNode s) node \<le> MaxPodsToEvictPerNode (Limits config))
     \<and> (0 < MaxPodsToEvictPerNamespace (Limits config)
        \<longrightarrow> lookup0 (EvictedByNamespace s) ns \<le> MaxPodsToEvictPerNamespace (Limits config))"

section \<open>Concrete inputs\<close>

definition failed_standalone :: Pod where
  "failed_standalone =
     \<lparr>Namespace = ''default'', Name = ''job-1'', OwnerReferences = [],
      Annotations = Map.empty, DeletionTimestamp = None, CreationTimestamp = 0,
      NodeName = ''n1'', PriorityClassName = '''', Priority = None,
      Containers = [\<lparr>Image = ''busybox''\<rparr>], Volumes = [], Phase = PodFailed, Reason = ''''\<rparr>"

text \<open>A running pod of the replica set \<open>web\<close>, and a configuration with given limits.\<close>

definition pod_on :: "string \<Rightarrow> string \<Rightarrow> string \<Rightarrow> Pod" where
  "pod_on ns name node =
     \<lparr>Namespace = ns, Name = name,
      OwnerReferences = [\<lparr>owner_Kind = ''ReplicaSet'', owner_Name = ''web''\<rparr>],
      Annotations = Map.empty, DeletionTimestamp = None, CreationTimestamp = 0,
      NodeName = node, PriorityClassName = '''', Priority = None,
      Containers = [\<lparr>Image = ''nginx''\<rparr>], Volumes = [], Phase = PodRunning, Reason = ''''\<rparr>"

definition config_with :: "bool \<Rightarrow> int \<Rightarrow> int \<Rightarrow> int \<Rightarrow> Config" where
  "config_with dryRun perNode perNamespace maxTotal =
     \<lparr>Interval = 5 * Minute, DryRun = dryRun, NodeSelector = [],
      Limits = \<lparr>MaxPodsToEvictPerNode = perNode, MaxPodsToEvictPerNamespace = perNamespace,
                MaxPodsToEvictTotal = maxTotal\<rparr>,
      Strategies = \<lparr>RemoveFailedPods = None, LowNodeUtilization = None,
                    RemoveDuplicates = None\<rparr>,
      LogLevel = ''info''\<rparr>"

definition quiet_platform :: client where
  "quiet_platform =
     \<lparr>Nodes_List = (\<lambda>sent. Inr []), Pods_List = (\<lambda>sent nodeName. Inr []),
      Evict = (\<lambda>sent eviction. None)\<rparr>"

definition after_one :: state where
  "after_one =
     snd (EvictPod quiet_platform (config_with True 3 5 1) (pod_on ''shop'' ''web-1'' ''n1'')
            ''test'' NewDefaultPodEvictor)"

definition three_evictions :: "operation list" where
  "three_evictions =
     [Evict_op (pod_on ''shop'' ''web-1'' ''n1'') ''test'',
      Evict_op (pod_on ''shop'' ''web-2'' ''n1'') ''test'',
      Evict_op (pod_on ''shop'' ''web-3'' ''n2'') ''test'']"

text \<open>
  \<open>spec_Signature\<close> follows the words of the specification (section 4.5): the
  namespace, then one part \<open>Kind:Name\<close> for each owner reference in order, then the
  images joined by commas, all joined by \<open>|\<close>.
\<close>

definition spec_Signature :: "string \<Rightarrow> OwnerReference list \<Rightarrow> string list \<Rightarrow> string" where
  "spec_Signature ns owners images =
     Join (ns # map (\<lambda>owner. owner_Kind owner @ '':'' @ owner_Name owner) owners
             @ [Join images '','']) ''|''"

definition with_images :: "string \<Rightarrow> string \<Rightarrow> string list \<Rightarrow> Pod" where
  "with_images name node images =
     \<lparr>Namespace = ''shop'', Name = name,
      OwnerReferences = [\<lparr>owner_Kind = ''ReplicaSet'', owner_Name = ''web''\<rparr>],
      Annotations = Map.empty, DeletionTimestamp = None, CreationTimestamp = 0,
      NodeName = node, PriorityClassName = '''', Priority = None,
      Containers = map (\<lambda>image. \<lparr>Image = image\<rparr>) images, Volumes = [],
      Phase = PodRunning, Reason = ''''\<rparr>"

text \<open>
  \<open>spec_cap\<close> follows the words of the specification (section 4.4): the three
  excesses over the target thresholds, the largest of them, a tenth of it rounded down,
  clamped between 1 and 5. \<open>int64\<close> says that a number fits Go's \<open>int\<close>.
  \<open>balancingReason\<close> is the reason the strategy gives the gatekeeper.
\<close>

definition spec_cap :: "LowNodeUtilizationConfig \<Rightarrow> NodeResourceUtilization \<Rightarrow> int" where
  "spec_cap cfg u =
     (let excessCPU = max 0 (CPUPercent u - CPU (TargetThresholds cfg));
          excessMem = max 0 (MemoryPercent u - Memory (TargetThresholds cfg));
          excessPods = max 0 (PodsPercent u - Pods (TargetThresholds cfg));
          maxExcess = Max {excessCPU, excessMem, excessPods}
      in max 1 (min 5 (maxExcess div 10)))"

definition int64 :: "int \<Rightarrow> bool" where
  "int64 x \<longleftrightarrow> - (2 ^ 63) \<le> x \<and> x < 2 ^ 63"

definition balancingReason :: "NodeResourceUtilization \<Rightarrow> string" where
  "balancingReason nodeUtil = ''Node over-utilization balancing - '' @ utilizationText nodeUtil"

text \<open>
  A node at 100% CPU against a target of 80%, and a platform that lists four pods on it:
  one of the namespace \<open>kube-system\<close>, two of the namespace \<open>shop\<close> and one of the
  namespace \<open>blog\<close>.
\<close>

definition hot_node :: NodeResourceUtilization where
  "hot_node =
     \<lparr>util_NodeName = ''n1'', CPUUsage = 4000, MemoryUsage = 2000000000, PodsCount = 44,
      CPUPercent = 100, MemoryPercent = 50, PodsPercent = 40\<rparr>"

definition low_config :: LowNodeUtilizationConfig where
  "low_config =
     \<lparr>low_Enabled = True,
      Thresholds = \<lparr>CPU = 20, Memory = 20, Pods = 20\<rparr>,
      TargetThresholds = \<lparr>CPU = 80, Memory = 80, Pods = 80\<rparr>,
      NumberOfNodes = 1\<rparr>"

definition crowd :: "Pod list" where
  "crowd =
     [pod_on ''kube-system'' ''dns-1'' ''n1'', pod_on ''shop'' ''web-1'' ''n1'',
      pod_on ''shop'' ''web-2'' ''n1'', pod_on ''blog'' ''web-3'' ''n1'']"

definition crowded_platform :: client where
  "crowded_platform =
     \<lparr>Nodes_List = (\<lambda>sent. Inr []),
      Pods_List = (\<lambda>sent nodeName. if nodeName = ''n1'' then Inr crowd else Inr []),
      Evict = (\<lambda>sent eviction. None)\<rparr>"

definition after_web1 :: state where
  "after_web1 =
     snd (EvictPod crowded_platform (config_with True 10 1 50) (pod_on ''shop'' ''web-1'' ''n1'')
            (balancingReason hot_node) NewDefaultPodEvictor)"

text \<open>The line \<open>getAvailableNodes\<close> logs for a node.\<close>

definition availabilityLine :: "Node \<Rightarrow> log_line" where
  "availabilityLine node =
     (if IsReadyNode node \<and> IsSchedulableNode node
      then Infof 2 (''Node '' @ node_Name node @ '' is available for descheduling'')
      else Infof 2 (''Node '' @ node_Name node @ '' is not available (ready=''
             @ show_bool (IsReadyNode node) @ '', schedulable=''
             @ show_bool (IsSchedulableNode node) @ '')''))"

text \<open>
  A cluster with one ready node, a clock that stands still, and a strategy that would
  evict a pod whenever it is run.
\<close>

definition ready_node :: "string \<Rightarrow> Node" where
  "ready_node name =
     \<lparr>node_Name = name, Labels = Map.empty, Unschedulable = False,
      Conditions = [\<lparr>condition_Type = ''Ready'', condition_Status = ''True''\<rparr>]\<rparr>"

definition lonely_platform :: client where
  "lonely_platform =
     \<lparr>Nodes_List = (\<lambda>sent. Inr [ready_node ''n1'']),
      Pods_List = (\<lambda>sent nodeName. Inr [pod_on ''shop'' ''web-1'' ''n1'']),
      Evict = (\<lambda>sent eviction. None)\<rparr>"

definition stopped_clock :: clock where
  "stopped_clock = \<lparr>elapsed = (\<lambda>lines. 0), Duration_String = (\<lambda>d. ''0s'')\<rparr>"

definition eager_strategy :: Strategy where
  "eager_strategy =
     \<lparr>strategy_Name = ''Eager'', IsEnabled = True,
      Execute = (\<lambda>nodes st. EvictPod lonely_platform (config_with True 10 5 50)
                   (pod_on ''shop'' ''web-1'' ''n1'') ''test'' st)\<rparr>"

text \<open>
  A configuration file that sets \<open>interval: 0\<close> and \<open>dryRun: true\<close> and nothing
  else, as \<open>yaml.Unmarshal\<close> reads it.
\<close>

definition parsed_interval_zero :: Config where
  "parsed_interval_zero =
     \<lparr>Interval = 0, DryRun = True, NodeSelector = [],
      Limits = \<lparr>MaxPodsToEvictPerNode = 0, MaxPodsToEvictPerNamespace = 0,
                MaxPodsToEvictTotal = 0\<rparr>,
      Strategies = \<lparr>RemoveFailedPods = None, LowNodeUtilization = None,
                    RemoveDuplicates = None\<rparr>,
      LogLevel = ''''\<rparr>"

definition read_file :: "string \<Rightarrow> string + string" where
  "read_file filepath = Inr ''interval: 0''"

definition unmarshal_interval_zero :: "string \<Rightarrow> string + Config" where
  "unmarshal_interval_zero data = Inr parsed_interval_zero"

text \<open>
  The invariant of the outer loop of \<open>sortPodsByAge\<close>: from position \<open>t\<close> on the
  list is sorted by creation time, and nothing before \<open>t\<close> is younger than anything
  from \<open>t\<close> on.
\<close>

definition sortedFrom :: "nat \<Rightarrow> Pod list \<Rightarrow> bool" where
  "sortedFrom t xs \<longleftrightarrow>
     sorted (map CreationTimestamp (drop t xs))
     \<and> (\<forall>x \<in> set (take t xs). \<forall>y \<in> set (drop t xs). CreationTimestamp x \<le> CreationTimestamp y)"

text \<open>
  What \<open>Execute\<close> of RemoveDuplicates does with one pod it offers to the gatekeeper:
  \<open>CanEvictPod\<close> first, then \<open>EvictPod\<close> when the pod may be evicted. It is the
  body of the loop \<open>evictDuplicates\<close>, as a step on the loop variables.
\<close>

definition offerDuplicate ::
  "client \<Rightarrow> Config \<Rightarrow> string \<Rightarrow> int \<times> int \<times> state \<Rightarrow> Pod \<Rightarrow> int \<times> int \<times> state" where
  "offerDuplicate cl config nodeName vars pod =
     (case vars of (evictedCount, skippedCount, st) \<Rightarrow>
        if \<not> fst (CanEvictPod pod) then
          (evictedCount, skippedCount + 1,
           emit (Infof 3 (''Skipping duplicate pod '' @ Namespace pod @ ''/'' @ Name pod
                   @ '': '' @ snd (CanEvictPod pod))) st)
        else
          (case EvictPod cl config pod
                  (''Duplicate pod removal - keeping oldest pod on node '' @ nodeName) st of
             (Some err, st1) \<Rightarrow>
               (evictedCount, skippedCount,
                emit (Errorf (''Failed to evict duplicate pod '' @ Namespace pod
                        @ ''/'' @ Name pod @ '': '' @ Error err)) st1)
           | (None, st1) \<Rightarrow>
               (evictedCount + 1, skippedCount,
                emit (Infof 2 (''Successfully evicted duplicate pod '' @ Namespace pod
                        @ ''/'' @ Name pod @ '' from node '' @ nodeName)) st1)))"

text \<open>
  A pod of the replica set \<open>web\<close> created at a given time; a platform with two pods
  of it on the node \<open>n1\<close> and no pod elsewhere; the configuration of the strategy;
  the groups of one signature with one node and with two nodes.
\<close>

definition pod_at :: "int \<Rightarrow> string \<Rightarrow> string \<Rightarrow> Pod" where
  "pod_at t name node = (pod_on ''shop'' name node)\<lparr>CreationTimestamp := t\<rparr>"

definition twin_platform :: client where
  "twin_platform =
     \<lparr>Nodes_List = (\<lambda>sent. Inr [ready_node ''n1'', ready_node ''n2'']),
      Pods_List = (\<lambda>sent nodeName.
        if nodeName = ''n1''
        then Inr [pod_at 20 ''web-2'' ''n1'', pod_at 10 ''web-1'' ''n1'']
        else Inr []),
      Evict = (\<lambda>sent eviction. None)\<rparr>"

definition dup_config :: RemoveDuplicatesConfig where
  "dup_config =
     \<lparr>dup_Enabled = True, ExcludeOwnerKinds = [''DaemonSet''], IncludedNamespaces = [],
      ExcludedNamespaces = [''kube-system'']\<rparr>"

definition one_node_group :: nodePods where
  "one_node_group = [(''n1'', [pod_at 20 ''web-2'' ''n1'', pod_at 10 ''web-1'' ''n1''])]"

definition two_node_group :: nodePods where
  "two_node_group =
     [(''n1'', [pod_at 20 ''web-2'' ''n1'', pod_at 10 ''web-1'' ''n1'']),
      (''n2'', [pod_at 5 ''web-3'' ''n2''])]"

definition spread_group :: nodePods where
  "spread_group =
     [(''n1'', [pod_at 10 ''web-1'' ''n1'']), (''n2'', [pod_at 5 ''web-3'' ''n2''])]"

section \<open>Counters, the log and the statistics\<close>

lemma map_of_assign: "map_of (assign m k v) = (map_of m)(k \<mapsto> v)"
  by (induction m) auto

lemma lookup0_incr:
  "lookup0 (incr m k) k' = (if k' = k then lookup0 m k + 1 else lookup0 m k')"
  by (simp add: lookup0_def incr_def map_of_assign)

lemma keys_dom: "keys m = dom (map_of m)"
  by (simp add: keys_def dom_map_of_conv_image_fst)

lemma keys_assign: "keys (assign m k v) = insert k (keys m)"
  by (simp add: keys_dom map_of_assign)

lemma keys_incr: "keys (incr m k) = insert k (keys m)"
  by (simp add: incr_def keys_assign)

lemma stats_emit [simp]: "stats (emit l st) = stats st"
  by (simp add: emit_def)

lemma requests_emit [simp]: "requests (emit l st) = requests st"
  by (simp add: emit_def)

lemma klog_emit [simp]: "klog (emit l st) = klog st @ [l]"
  by (simp add: emit_def)

lemma checkEvictionLimits_cases:
  "checkEvictionLimits config s pod =
     (if totalReached config s then Some (TotalLimit (MaxPodsToEvictTotal (Limits config)))
      else if nodeReached config s pod
        then Some (NodeLimit (NodeName pod) (MaxPodsToEvictPerNode (Limits config)))
      else if namespaceReached config s pod
        then Some (NamespaceLimit (Namespace pod) (MaxPodsToEvictPerNamespace (Limits config)))
      else None)"
  by (simp add: checkEvictionLimits_def totalReached_def nodeReached_def namespaceReached_def
      Let_def)

lemma updateStats_fields:
  "TotalEvicted (updateStats pod reason True s) = TotalEvicted s + 1"
  "EvictedByNode (updateStats pod reason True s) =
     (if NodeName pod \<noteq> '''' then incr (EvictedByNode s) (NodeName pod) else EvictedByNode s)"
  "EvictedByNamespace (updateStats pod reason True s) = incr (EvictedByNamespace s) (Namespace pod)"
  "EvictedByReason (updateStats pod reason True s) = incr (EvictedByReason s) reason"
  "FailedEvictions (updateStats pod reason True s) = FailedEvictions s"
  by (simp_all add: updateStats_def Let_def)

lemma EvictPod_stats:
  "stats (snd (EvictPod cl config pod reason st)) =
     (case checkEvictionLimits config (stats st) pod of
        Some err \<Rightarrow> stats st
      | None \<Rightarrow>
          if DryRun config then updateStats pod reason True (stats st)
          else (case Evict cl (requests st)
                       \<lparr>eviction_Name = Name pod, eviction_Namespace = Namespace pod,
                        GracePeriodSeconds = gracePeriod\<rparr> of
                  Some e \<Rightarrow> (stats st)\<lparr>FailedEvictions := FailedEvictions (stats st) + 1\<rparr>
                | None \<Rightarrow> updateStats pod reason True (stats st)))"
  by (simp add: EvictPod_def Let_def split: option.splits)

lemma keepAvailable_eq:
  "keepAvailable items (acc, st) =
     (acc @ FilterReadySchedulableNodes items,
      st\<lparr>klog := klog st @ map availabilityLine items\<rparr>)"
proof (induction items arbitrary: acc st)
  case Nil
  then show ?case by (simp add: FilterReadySchedulableNodes_def)
next
  case (Cons node items)
  then show ?case
    by (simp add: FilterReadySchedulableNodes_def availabilityLine_def emit_def)
qed

lemma getAvailableNodes_eq:
  "Nodes_List cl (requests st) = Inr items \<Longrightarrow>
     getAvailableNodes cl st =
       (Inr (FilterReadySchedulableNodes items),
        st\<lparr>klog := klog st @ map availabilityLine items\<rparr>)"
  by (simp add: getAvailableNodes_def keepAvailable_eq)

section \<open>The quotas are never exceeded\<close>

lemma withinLimits_updateStats:
  assumes "withinLimits config s node ns" and "checkEvictionLimits config s pod = None"
  shows "withinLimits config (updateStats pod reason True s) node ns"
  using assms
  by (auto simp: withinLimits_def checkEvictionLimits_cases totalReached_def nodeReached_def
      namespaceReached_def updateStats_fields lookup0_incr split: if_splits)

lemma withinLimits_failed:
  "withinLimits config (s\<lparr>FailedEvictions := n\<rparr>) node ns = withinLimits config s node ns"
  by (simp add: withinLimits_def)

lemma withinLimits_EvictPod:
  assumes "withinLimits config (stats st) node ns"
  shows "withinLimits config (stats (snd (EvictPod cl config pod reason st))) node ns"
  using assms
  by (simp add: EvictPod_stats withinLimits_updateStats withinLimits_failed split: option.splits)

lemma withinLimits_empty: "withinLimits config empty_stats node ns"
  by (auto simp: withinLimits_def empty_stats_def lookup0_def)

lemma withinLimits_run:
  "withinLimits config (stats st) node ns
     \<Longrightarrow> withinLimits config (stats (run cl config ops st)) node ns"
proof (induction ops arbitrary: st)
  case Nil
  then show ?case by simp
next
  case (Cons op ops)
  show ?case
  proof (cases op)
    case (Evict_op pod reason)
    with Cons show ?thesis by (simp add: withinLimits_EvictPod)
  next
    case Reset_op
    with Cons show ?thesis by (simp add: ResetStats_def withinLimits_empty)
  qed
qed

text \<open>
  Claim C1. A cycle starts by resetting the statistics. After the reset and any
  sequence of \<open>EvictPod\<close> and \<open>ResetStats\<close> calls, whatever the platform answers and
  whether the run is dry or not, the total is at most \<open>maxPodsToEvictTotal\<close>, the count of
  every node key at most \<open>maxPodsToEvictPerNode\<close> and the count of every namespace key at
  most \<open>maxPodsToEvictPerNamespace\<close>, each bound holding when its limit is positive.
\<close>

theorem limits_never_exceeded:
  "withinLimits config (stats (run cl config ops (ResetStats st))) node ns"
  by (rule withinLimits_run) (simp add: ResetStats_def withinLimits_empty)

lemma run_three_evictions:
  "stats (run quiet_platform (config_with True 1 2 5) three_evictions
            (ResetStats NewDefaultPodEvictor)) =
     \<lparr>TotalEvicted = 2, EvictedByNode = [(''n1'', 1), (''n2'', 1)],
      EvictedByNamespace = [(''shop'', 2)], EvictedByReason = [(''test'', 2)],
      FailedEvictions = 0\<rparr>"
  by (simp add: three_evictions_def EvictPod_def checkEvictionLimits_def config_with_def
      pod_on_def NewDefaultPodEvictor_def ResetStats_def empty_stats_def lookup0_def
      updateStats_def incr_def Let_def emit_def)

text \<open>
  With one eviction allowed per node and two per namespace, three candidates of the
  namespace \<open>shop\<close>, two of them on \<open>n1\<close>: the second is refused for its node, the
  third is evicted, and the counts stand at their limits.
\<close>

theorem limits_never_exceeded_witness:
  "0 < MaxPodsToEvictTotal (Limits (config_with True 1 2 5))
   \<and> 0 < MaxPodsToEvictPerNode (Limits (config_with True 1 2 5))
   \<and> 0 < MaxPodsToEvictPerNamespace (Limits (config_with True 1 2 5))
   \<and> withinLimits (config_with True 1 2 5)
        (stats (run quiet_platform (config_with True 1 2 5) three_evictions
                  (ResetStats NewDefaultPodEvictor))) ''n1'' ''shop''
   \<and> lookup0 (EvictedByNode (stats (run quiet_platform (config_with True 1 2 5)
        three_evictions (ResetStats NewDefaultPodEvictor)))) ''n1'' = 1
   \<and> lookup0 (EvictedByNamespace (stats (run quiet_platform (config_with True 1 2 5)
        three_evictions (ResetStats NewDefaultPodEvictor)))) ''shop'' = 2"
  using limits_never_exceeded [of "config_with True 1 2 5" quiet_platform three_evictions
      NewDefaultPodEvictor "''n1''" "''shop''"]
  by (simp add: run_three_evictions lookup0_def) (simp add: config_with_def)

section \<open>CanEvictPod tests six rules in order\<close>

lemma isSystemNamespace_iff: "isSystemNamespace nss ns \<longleftrightarrow> ns \<in> set nss"
  by (induction nss) auto

lemma isDaemonSetOwner_iff:
  "isDaemonSetOwner owners \<longleftrightarrow> (\<exists>owner \<in> set owners. owner_Kind owner = ''DaemonSet'')"
  by (induction owners) auto

lemma isLocalVolume_iff:
  "isLocalVolume vs \<longleftrightarrow> (\<exists>v \<in> set vs. HostPath v \<noteq> None \<or> EmptyDir v \<noteq> None)"
  by (induction vs) auto

lemma isStaticPod_iff:
  "isStaticPod pod \<longleftrightarrow> Annotations pod ''kubernetes.io/config.source'' = Some ''file''"
  by (simp add: isStaticPod_def split: option.splits)

text \<open>
  Claim C2. \<open>CanEvictPod\<close> is a function of the pod alone. It tests the six rules
  system-critical, DaemonSet, static, standalone and not failed, terminating, local
  storage in this order, answers false with the reason of the first rule that matches and
  true when none does. A pod without owner references whose phase is \<open>Failed\<close> is not
  refused by the standalone rule.
\<close>

theorem CanEvictPod_first_matching_rule:
  "CanEvictPod pod = spec_CanEvict pod
   \<and> (OwnerReferences pod = [] \<and> Phase pod = PodFailed
        \<longrightarrow> snd (CanEvictPod pod) \<noteq> ''standalone pod (not failed)'')"
  by (simp add: CanEvictPod_def spec_CanEvict_def spec_CanEvict_rules_def
      isSystemCriticalPod_def isSystemNamespace_iff isDaemonSetPod_def isDaemonSetOwner_iff
      isStaticPod_iff isStandalonePod_def hasLocalStorage_def isLocalVolume_iff)

text \<open>A failed pod without owners in the namespace \<open>default\<close> may be evicted.\<close>

theorem CanEvictPod_first_matching_rule_witness:
  "OwnerReferences failed_standalone = [] \<and> Phase failed_standalone = PodFailed
   \<and> CanEvictPod failed_standalone = spec_CanEvict failed_standalone
   \<and> CanEvictPod failed_standalone = (True, '''')"
  using CanEvictPod_first_matching_rule [of failed_standalone]
  by (simp add: failed_standalone_def CanEvictPod_def isSystemCriticalPod_def isDaemonSetPod_def
      isStaticPod_def isStandalonePod_def hasLocalStorage_def)

section \<open>A call refused on quota changes nothing\<close>

text \<open>
  Claim C3. When \<open>EvictPod\<close> is refused on quota, it returns an error with a text and
  the state after the call is the state before it: no counter and no map of the
  statistics has changed, nothing was logged and nothing was sent to the platform. The
  quotas are checked in the order total, node, namespace, each only when its limit is
  positive, and the error names the first quota that is reached.
\<close>

theorem EvictPod_quota_rejection:
  assumes "checkEvictionLimits config (stats st) pod = Some err"
  shows "EvictPod cl config pod reason st = (Some err, st)
         \<and> Error err \<noteq> ''''
         \<and> (totalReached config (stats st) \<or> nodeReached config (stats st) pod
              \<or> namespaceReached config (stats st) pod)
         \<and> (totalReached config (stats st)
              \<longrightarrow> err = TotalLimit (MaxPodsToEvictTotal (Limits config)))
         \<and> (\<not> totalReached config (stats st) \<and> nodeReached config (stats st) pod
              \<longrightarrow> err = NodeLimit (NodeName pod) (MaxPodsToEvictPerNode (Limits config)))
         \<and> (\<not> totalReached config (stats st) \<and> \<not> nodeReached config (stats st) pod
              \<longrightarrow> err = NamespaceLimit (Namespace pod)
                          (MaxPodsToEvictPerNamespace (Limits config)))"
proof -
  have "EvictPod cl config pod reason st = (Some err, st)"
    using assms by (simp add: EvictPod_def)
  moreover have "Error err \<noteq> ''''"
    using assms by (auto simp: checkEvictionLimits_cases split: if_splits)
  moreover have "totalReached config (stats st) \<or> nodeReached config (stats st) pod
              \<or> namespaceReached config (stats st) pod"
    using assms by (auto simp: checkEvictionLimits_cases split: if_splits)
  moreover have "totalReached config (stats st)
              \<longrightarrow> err = TotalLimit (MaxPodsToEvictTotal (Limits config))"
    using assms by (auto simp: checkEvictionLimits_cases split: if_splits)
  moreover have "\<not> totalReached config (stats st) \<and> nodeReached config (stats st) pod
              \<longrightarrow> err = NodeLimit (NodeName pod) (MaxPodsToEvictPerNode (Limits config))"
    using assms by (auto simp: checkEvictionLimits_cases split: if_splits)
  moreover have "\<not> totalReached config (stats st) \<and> \<not> nodeReached config (stats st) pod
              \<longrightarrow> err = NamespaceLimit (Namespace pod)
                          (MaxPodsToEvictPerNamespace (Limits config))"
    using assms by (auto simp: checkEvictionLimits_cases split: if_splits)
  ultimately show ?thesis by blast
qed

lemma after_one_stats:
  "stats after_one =
     \<lparr>TotalEvicted = 1, EvictedByNode = [(''n1'', 1)], EvictedByNamespace = [(''shop'', 1)],
      EvictedByReason = [(''test'', 1)], FailedEvictions = 0\<rparr>"
  by (simp add: after_one_def EvictPod_def checkEvictionLimits_def config_with_def pod_on_def
      NewDefaultPodEvictor_def empty_stats_def lookup0_def updateStats_def incr_def Let_def)

text \<open>With a total limit of 1, the second eviction of a cycle is refused.\<close>

theorem EvictPod_quota_rejection_witness:
  "checkEvictionLimits (config_with True 3 5 1) (stats after_one)
      (pod_on ''shop'' ''web-2'' ''n2'') = Some (TotalLimit 1)
   \<and> EvictPod quiet_platform (config_with True 3 5 1) (pod_on ''shop'' ''web-2'' ''n2'')
        ''test'' after_one = (Some (TotalLimit 1), after_one)"
proof -
  have h: "checkEvictionLimits (config_with True 3 5 1) (stats after_one)
      (pod_on ''shop'' ''web-2'' ''n2'') = Some (TotalLimit 1)"
    by (simp add: after_one_stats checkEvictionLimits_def config_with_def)
  from EvictPod_quota_rejection [OF h, of quiet_platform "''test''"] h
  show ?thesis by simp
qed

section \<open>Dry run\<close>

text \<open>
  Claim C4. When \<open>dryRun\<close> is set and the quota check accepts the pod, \<open>EvictPod\<close>
  sends nothing to the platform, logs at info level the line
  \<open>[DryRun] Would evict pod <ns>/<name> on node <node>, reason: <reason>\<close>, updates the
  statistics exactly as an eviction that the platform accepts would, and returns no
  error: the total, the count of the namespace and the count of the reason rise by one,
  and so does the count of the node when the pod has a node name.
\<close>

theorem EvictPod_dry_run:
  assumes "DryRun config" and "checkEvictionLimits config (stats st) pod = None"
  shows "EvictPod cl config pod reason st =
           (None,
            st\<lparr>klog := klog st @ [Infof 0 (''[DryRun] Would evict pod '' @ Namespace pod @ ''/''
                        @ Name pod @ '' on node '' @ NodeName pod @ '', reason: '' @ reason)],
               stats := updateStats pod reason True (stats st)\<rparr>)
         \<and> requests (snd (EvictPod cl config pod reason st)) = requests st
         \<and> (\<forall>cl'. Evict cl' (requests st)
                     \<lparr>eviction_Name = Name pod, eviction_Namespace = Namespace pod,
                      GracePeriodSeconds = gracePeriod\<rparr> = None
               \<longrightarrow> stats (snd (EvictPod cl' (config\<lparr>DryRun := False\<rparr>) pod reason st))
                   = stats (snd (EvictPod cl config pod reason st)))
         \<and> TotalEvicted (stats (snd (EvictPod cl config pod reason st)))
             = TotalEvicted (stats st) + 1
         \<and> (NodeName pod \<noteq> '''' \<longrightarrow>
              lookup0 (EvictedByNode (stats (snd (EvictPod cl config pod reason st))))
                (NodeName pod) = lookup0 (EvictedByNode (stats st)) (NodeName pod) + 1)
         \<and> lookup0 (EvictedByNamespace (stats (snd (EvictPod cl config pod reason st))))
             (Namespace pod) = lookup0 (EvictedByNamespace (stats st)) (Namespace pod) + 1
         \<and> lookup0 (EvictedByReason (stats (snd (EvictPod cl config pod reason st)))) reason
             = lookup0 (EvictedByReason (stats st)) reason + 1
         \<and> FailedEvictions (stats (snd (EvictPod cl config pod reason st)))
             = FailedEvictions (stats st)"
proof -
  have same: "checkEvictionLimits (config\<lparr>DryRun := False\<rparr>) (stats st) pod = None"
    using assms(2) by (simp add: checkEvictionLimits_def)
  have 1: "EvictPod cl config pod reason st =
           (None,
            st\<lparr>klog := klog st @ [Infof 0 (''[DryRun] Would evict pod '' @ Namespace pod @ ''/''
                        @ Name pod @ '' on node '' @ NodeName pod @ '', reason: '' @ reason)],
               stats := updateStats pod reason True (stats st)\<rparr>)"
    using assms by (simp add: EvictPod_def emit_def Let_def)
  have 2: "stats (snd (EvictPod cl config pod reason st)) = updateStats pod reason True (stats st)"
    using assms by (simp add: EvictPod_stats)
  have 3: "\<forall>cl'. Evict cl' (requests st)
                     \<lparr>eviction_Name = Name pod, eviction_Namespace = Namespace pod,
                      GracePeriodSeconds = gracePeriod\<rparr> = None
               \<longrightarrow> stats (snd (EvictPod cl' (config\<lparr>DryRun := False\<rparr>) pod reason st))
                   = stats (snd (EvictPod cl config pod reason st))"
  proof (intro allI impI)
    fix cl' :: client
    assume ok: "Evict cl' (requests st)
                     \<lparr>eviction_Name = Name pod, eviction_Namespace = Namespace pod,
                      GracePeriodSeconds = gracePeriod\<rparr> = None"
    have "stats (snd (EvictPod cl' (config\<lparr>DryRun := False\<rparr>) pod reason st))
            = updateStats pod reason True (stats st)"
      using same ok by (simp add: EvictPod_stats)
    with 2 show "stats (snd (EvictPod cl' (config\<lparr>DryRun := False\<rparr>) pod reason st))
                   = stats (snd (EvictPod cl config pod reason st))"
      by simp
  qed
  show ?thesis
    using 3 by (simp add: 1 2 updateStats_fields lookup0_incr del: One_nat_def)
qed

text \<open>The first eviction of a cycle, in a dry run.\<close>

theorem EvictPod_dry_run_witness:
  "DryRun (config_with True 3 5 10)
   \<and> checkEvictionLimits (config_with True 3 5 10) (stats NewDefaultPodEvictor)
       (pod_on ''shop'' ''web-1'' ''n1'') = None
   \<and> EvictPod quiet_platform (config_with True 3 5 10) (pod_on ''shop'' ''web-1'' ''n1'')
       ''test'' NewDefaultPodEvictor =
       (None,
        \<lparr>stats = \<lparr>TotalEvicted = 1, EvictedByNode = [(''n1'', 1)],
                  EvictedByNamespace = [(''shop'', 1)], EvictedByReason = [(''test'', 1)],
                  FailedEvictions = 0\<rparr>,
         klog = [Infof 0 ''[DryRun] Would evict pod shop/web-1 on node n1, reason: test''],
         requests = []\<rparr>)"
proof -
  have d: "DryRun (config_with True 3 5 10)"
    by (simp add: config_with_def)
  have c: "checkEvictionLimits (config_with True 3 5 10) (stats NewDefaultPodEvictor)
       (pod_on ''shop'' ''web-1'' ''n1'') = None"
    by (simp add: checkEvictionLimits_def config_with_def NewDefaultPodEvictor_def
        empty_stats_def lookup0_def)
  from EvictPod_dry_run [OF d c, of quiet_platform "''test''"] d c
  show ?thesis
    by (simp add: pod_on_def NewDefaultPodEvictor_def empty_stats_def updateStats_def incr_def
        lookup0_def Let_def)
qed

section \<open>The cap of the utilization strategy\<close>

lemma quot_nonneg: "0 \<le> a \<Longrightarrow> quot a 10 = a div 10"
  by (cases "a = 0") (simp_all add: quot_def)

lemma wrap64_id: "int64 x \<Longrightarrow> wrap64 x = x"
  by (simp add: int64_def wrap64_def)

lemma calculateMaxEvictions_spec:
  assumes "int64 (CPUPercent nodeUtil - CPU (TargetThresholds cfg))"
    and "int64 (MemoryPercent nodeUtil - Memory (TargetThresholds cfg))"
    and "int64 (PodsPercent nodeUtil - Pods (TargetThresholds cfg))"
  shows "calculateMaxEvictions cfg nodeUtil = spec_cap cfg nodeUtil"
proof -
  let ?c = "CPUPercent nodeUtil - CPU (TargetThresholds cfg)"
  let ?m = "MemoryPercent nodeUtil - Memory (TargetThresholds cfg)"
  let ?p = "PodsPercent nodeUtil - Pods (TargetThresholds cfg)"
  have mg: "max_go a b = max a b" for a b
    by (simp add: max_go_def max_def)
  have mn: "min_go a b = min a b" for a b
    by (simp add: min_go_def min_def)
  have nn: "0 \<le> max (max 0 ?c) (max (max 0 ?m) (max 0 ?p))"
    by simp
  have Mx: "Max {max 0 ?c, max 0 ?m, max 0 ?p} = max (max 0 ?c) (max (max 0 ?m) (max 0 ?p))"
    by simp
  show ?thesis
    unfolding calculateMaxEvictions_def spec_cap_def Let_def mg mn Mx sub64_def
      wrap64_id [OF assms(1)] wrap64_id [OF assms(2)] wrap64_id [OF assms(3)]
    by (simp only: quot_nonneg [OF nn])
qed

lemma calculateMaxEvictions_range:
  "1 \<le> calculateMaxEvictions cfg nodeUtil \<and> calculateMaxEvictions cfg nodeUtil \<le> 5"
  by (simp add: calculateMaxEvictions_def max_go_def min_go_def Let_def)

text \<open>
  Outside the range the program and the formula part: at the least percentage a 64-bit
  \<open>int\<close> holds, the difference wraps around to a large excess and the cap is 5, where
  the formula gives 1.
\<close>

lemma calculateMaxEvictions_wraps:
  "calculateMaxEvictions low_config (hot_node\<lparr>CPUPercent := - (2 ^ 63)\<rparr>) = 5
   \<and> spec_cap low_config (hot_node\<lparr>CPUPercent := - (2 ^ 63)\<rparr>) = 1"
  by (simp add: calculateMaxEvictions_def spec_cap_def low_config_def hot_node_def sub64_def
      wrap64_def max_go_def min_go_def quot_def Let_def)

lemma keepEvictable_filter:
  "keepEvictable pods =
     filter (\<lambda>pod. \<not> (Phase pod = PodSucceeded \<or> Phase pod = PodFailed) \<and> fst (CanEvictPod pod))
       pods"
  by (induction pods) auto

lemma sortPodsByPriority_set: "set (sortPodsByPriority pods) = set pods"
  by (auto simp: sortPodsByPriority_def Let_def)

lemma EvictPod_total:
  assumes "EvictPod cl config pod reason st = (err, st1)"
  shows "TotalEvicted (stats st1) = TotalEvicted (stats st) + (if err = None then 1 else 0)"
proof (cases "checkEvictionLimits config (stats st) pod")
  case (Some e)
  with assms have "err = Some e" and "st1 = st"
    by (simp_all add: EvictPod_def)
  then show ?thesis
    by simp
next
  case None
  with assms show ?thesis
    by (auto simp: EvictPod_def Let_def updateStats_def emit_def split: option.splits if_splits)
qed

lemma evictLoop_counts:
  "evictLoop cl config nodeUtil maxEvictions pods (evicted, evictedCount, skippedCount, st)
     = (evicted', evictedCount', skippedCount', st')
   \<Longrightarrow> evicted \<le> evicted' \<and> evicted' \<le> max evicted maxEvictions
       \<and> TotalEvicted (stats st') = TotalEvicted (stats st) + (evicted' - evicted)"
proof (induction pods arbitrary: evicted evictedCount skippedCount st)
  case Nil
  then show ?case by simp
next
  case (Cons pod pods)
  show ?case
  proof (cases "evicted \<ge> maxEvictions")
    case True
    with Cons.prems show ?thesis by simp
  next
    case False
    obtain canEvict reason where ce: "CanEvictPod pod = (canEvict, reason)"
      by (cases "CanEvictPod pod")
    show ?thesis
    proof (cases canEvict)
      case False
      with Cons.prems \<open>\<not> evicted \<ge> maxEvictions\<close> ce
      have "evictLoop cl config nodeUtil maxEvictions pods
              (evicted, evictedCount, skippedCount + 1,
               emit (Infof 3 (''Skipping pod '' @ Namespace pod @ ''/'' @ Name pod @ '': ''
                       @ reason)) st) = (evicted', evictedCount', skippedCount', st')"
        by simp
      from Cons.IH [OF this] show ?thesis by simp
    next
      case True
      obtain err st1 where ev:
        "EvictPod cl config pod (''Node over-utilization balancing - '' @ utilizationText nodeUtil) st
           = (err, st1)"
        by (cases "EvictPod cl config pod
                     (''Node over-utilization balancing - '' @ utilizationText nodeUtil) st")
      note tot = EvictPod_total [OF ev]
      show ?thesis
      proof (cases err)
        case None
        with Cons.prems \<open>\<not> evicted \<ge> maxEvictions\<close> ce True ev
        have "evictLoop cl config nodeUtil maxEvictions pods
                (evicted + 1, evictedCount + 1, skippedCount,
                 emit (Infof 2 (''Successfully evicted pod '' @ Namespace pod @ ''/''
                             @ Name pod @ '' from over-utilized node ''
                             @ util_NodeName nodeUtil)) st1)
              = (evicted', evictedCount', skippedCount', st')"
          by simp
        from Cons.IH [OF this] tot None \<open>\<not> evicted \<ge> maxEvictions\<close> show ?thesis by simp
      next
        case (Some e)
        with Cons.prems \<open>\<not> evicted \<ge> maxEvictions\<close> ce True ev
        have "evictLoop cl config nodeUtil maxEvictions pods
                (evicted, evictedCount, skippedCount,
                 emit (Errorf (''Failed to evict pod '' @ Namespace pod @ ''/'' @ Name pod
                             @ '': '' @ Error e)) st1)
              = (evicted', evictedCount', skippedCount', st')"
          by simp
        from Cons.IH [OF this] tot Some show ?thesis by simp
      qed
    qed
  qed
qed

lemma evictLoop_no_skip:
  assumes "\<forall>pod \<in> set pods. fst (CanEvictPod pod)"
    and "evictLoop cl config nodeUtil maxEvictions pods (evicted, evictedCount, skippedCount, st)
           = (evicted', evictedCount', skippedCount', st')"
  shows "skippedCount' = skippedCount"
  using assms
proof (induction pods arbitrary: evicted evictedCount st)
  case Nil
  then show ?case by simp
next
  case (Cons pod pods)
  from Cons.prems(1) have ok: "fst (CanEvictPod pod)"
    and rest: "\<forall>pod \<in> set pods. fst (CanEvictPod pod)"
    by simp_all
  show ?case
  proof (cases "evicted \<ge> maxEvictions")
    case True
    with Cons.prems(2) show ?thesis by simp
  next
    case False
    obtain reason where ce: "CanEvictPod pod = (True, reason)"
      using ok by (cases "CanEvictPod pod") simp
    obtain err st1 where ev:
      "EvictPod cl config pod (''Node over-utilization balancing - '' @ utilizationText nodeUtil) st
         = (err, st1)"
      by (cases "EvictPod cl config pod
                   (''Node over-utilization balancing - '' @ utilizationText nodeUtil) st")
    show ?thesis
    proof (cases err)
      case None
      with Cons.prems(2) False ce ev
      have "evictLoop cl config nodeUtil maxEvictions pods
              (evicted + 1, evictedCount + 1, skippedCount,
               emit (Infof 2 (''Successfully evicted pod '' @ Namespace pod @ ''/''
                           @ Name pod @ '' from over-utilized node ''
                           @ util_NodeName nodeUtil)) st1)
            = (evicted', evictedCount', skippedCount', st')"
        by simp
      from Cons.IH [OF rest this] show ?thesis .
    next
      case (Some e)
      with Cons.prems(2) False ce ev
      have "evictLoop cl config nodeUtil maxEvictions pods
              (evicted, evictedCount, skippedCount,
               emit (Errorf (''Failed to evict pod '' @ Namespace pod @ ''/'' @ Name pod
                           @ '': '' @ Error e)) st1)
            = (evicted', evictedCount', skippedCount', st')"
        by simp
      from Cons.IH [OF rest this] show ?thesis .
    qed
  qed
qed

lemma overUtilizedLoop_step:
  assumes "Pods_List cl (requests st) (util_NodeName nodeUtil) = Inr pods"
  shows "overUtilizedLoop cl config cfg (nodeUtil # nodes) (evictedCount, skippedCount, st) =
     (case evictLoop cl config nodeUtil (calculateMaxEvictions cfg nodeUtil)
             (sortPodsByPriority (keepEvictable pods))
             (0, evictedCount, skippedCount,
              emit (Infof 2 (''Processing over-utilized node: '' @ util_NodeName nodeUtil
                      @ '' ('' @ utilizationText nodeUtil @ '')'')) st) of
        (evicted, evictedCount', skippedCount', st2) \<Rightarrow>
          overUtilizedLoop cl config cfg nodes
            (evictedCount', skippedCount',
             emit (Infof 2 (''Evicted '' @ show_int evicted @ '' pods from node ''
                     @ util_NodeName nodeUtil)) st2))"
  using assms by (simp add: getEvictablePodsOnNode_def getPodsOnNode_def Let_def)

lemma overUtilizedLoop_total:
  "overUtilizedLoop cl config cfg nodes (evictedCount, skippedCount, st)
     = (evictedCount', skippedCount', st')
   \<Longrightarrow> TotalEvicted (stats st) \<le> TotalEvicted (stats st')
       \<and> TotalEvicted (stats st')
           \<le> TotalEvicted (stats st) + sum_list (map (calculateMaxEvictions cfg) nodes)"
proof (induction nodes arbitrary: evictedCount skippedCount st)
  case Nil
  then show ?case by simp
next
  case (Cons nodeUtil nodes)
  let ?st1 = "emit (Infof 2 (''Processing over-utilized node: '' @ util_NodeName nodeUtil
                      @ '' ('' @ utilizationText nodeUtil @ '')'')) st"
  show ?case
  proof (cases "Pods_List cl (requests st) (util_NodeName nodeUtil)")
    case (Inl err)
    with Cons.prems
    have "overUtilizedLoop cl config cfg nodes
            (evictedCount, skippedCount,
             emit (Errorf (''Failed to get evictable pods on node ''
                     @ util_NodeName nodeUtil @ '': '' @ err)) ?st1)
          = (evictedCount', skippedCount', st')"
      by (simp add: getEvictablePodsOnNode_def getPodsOnNode_def Let_def)
    from Cons.IH [OF this] calculateMaxEvictions_range [of cfg nodeUtil]
    show ?thesis by simp
  next
    case (Inr pods)
    obtain e ec sc st2 where loop:
      "evictLoop cl config nodeUtil (calculateMaxEvictions cfg nodeUtil)
         (sortPodsByPriority (keepEvictable pods)) (0, evictedCount, skippedCount, ?st1)
       = (e, ec, sc, st2)"
      by (cases "evictLoop cl config nodeUtil (calculateMaxEvictions cfg nodeUtil)
         (sortPodsByPriority (keepEvictable pods)) (0, evictedCount, skippedCount, ?st1)") auto
    have "overUtilizedLoop cl config cfg nodes
            (ec, sc, emit (Infof 2 (''Evicted '' @ show_int e @ '' pods from node ''
                     @ util_NodeName nodeUtil)) st2)
          = (evictedCount', skippedCount', st')"
      using Cons.prems unfolding overUtilizedLoop_step [OF Inr] loop by simp
    from Cons.IH [OF this] evictLoop_counts [OF loop] calculateMaxEvictions_range [of cfg nodeUtil]
    show ?thesis by simp
  qed
qed

lemma hot_cap: "calculateMaxEvictions low_config hot_node = 2"
  by (simp add: calculateMaxEvictions_def low_config_def hot_node_def max_go_def min_go_def
      quot_def sub64_def wrap64_def Let_def)

lemma name_hot: "util_NodeName hot_node = ''n1''"
  by (simp add: hot_node_def)

lemma text_hot: "utilizationText hot_node = ''CPU=100%, Memory=50%, Pods=40%''"
  by (simp add: utilizationText_def hot_node_def show_int_def show_nat.simps)

lemma crowd_candidates:
  "sortPodsByPriority (keepEvictable crowd) =
     [pod_on ''shop'' ''web-1'' ''n1'', pod_on ''shop'' ''web-2'' ''n1'',
      pod_on ''blog'' ''web-3'' ''n1'']"
  by (simp add: crowd_def sortPodsByPriority_def isLowPriority_def CanEvictPod_def
      isSystemCriticalPod_def isDaemonSetPod_def isStaticPod_def isStandalonePod_def
      hasLocalStorage_def pod_on_def Let_def)

lemma hot_run:
  "evictPodsFromOverUtilizedNodes crowded_platform (config_with True 10 1 50) low_config
       [hot_node] NewDefaultPodEvictor =
       (None,
        \<lparr>stats = \<lparr>TotalEvicted = 2, EvictedByNode = [(''n1'', 2)],
                  EvictedByNamespace = [(''shop'', 1), (''blog'', 1)],
                  EvictedByReason =
                    [(''Node over-utilization balancing - CPU=100%, Memory=50%, Pods=40%'', 2)],
                  FailedEvictions = 0\<rparr>,
         klog =
           [Infof 2 ''Processing over-utilized node: n1 (CPU=100%, Memory=50%, Pods=40%)'',
            Infof 0 ''[DryRun] Would evict pod shop/web-1 on node n1, reason: Node over-utilization balancing - CPU=100%, Memory=50%, Pods=40%'',
            Infof 2 ''Successfully evicted pod shop/web-1 from over-utilized node n1'',
            Errorf ''Failed to evict pod shop/web-2: reached namespace shop eviction limit: 1'',
            Infof 0 ''[DryRun] Would evict pod blog/web-3 on node n1, reason: Node over-utilization balancing - CPU=100%, Memory=50%, Pods=40%'',
            Infof 2 ''Successfully evicted pod blog/web-3 from over-utilized node n1'',
            Infof 2 ''Evicted 2 pods from node n1'',
            Infof 0 ''LowNodeUtilization strategy completed. Evicted: 2, Skipped: 0''],
         requests = []\<rparr>)"
  by (simp add: hot_cap text_hot name_hot crowd_candidates evictPodsFromOverUtilizedNodes_def
      getEvictablePodsOnNode_def getPodsOnNode_def crowded_platform_def
      CanEvictPod_def isSystemCriticalPod_def isDaemonSetPod_def isStaticPod_def
      isStandalonePod_def hasLocalStorage_def pod_on_def config_with_def
      EvictPod_def checkEvictionLimits_def updateStats_def incr_def lookup0_def
      NewDefaultPodEvictor_def empty_stats_def emit_def Let_def show_int_def show_nat.simps)

text \<open>
  Claim C5, as the claim states it, fails. The cap of the node is 2 and the namespace
  limit is 1. The first candidate is evicted, the second is refused for the quota of its
  namespace, and the third is evicted all the same: the refused call took no slot of the
  cap. Had it taken one, the loop would have stopped after the second candidate with one
  eviction.
\<close>

theorem quota_rejection_takes_no_slot:
  "calculateMaxEvictions low_config hot_node = 2
   \<and> evictPodsFromOverUtilizedNodes crowded_platform (config_with True 10 1 50) low_config
       [hot_node] NewDefaultPodEvictor =
       (None,
        \<lparr>stats = \<lparr>TotalEvicted = 2, EvictedByNode = [(''n1'', 2)],
                  EvictedByNamespace = [(''shop'', 1), (''blog'', 1)],
                  EvictedByReason =
                    [(''Node over-utilization balancing - CPU=100%, Memory=50%, Pods=40%'', 2)],
                  FailedEvictions = 0\<rparr>,
         klog =
           [Infof 2 ''Processing over-utilized node: n1 (CPU=100%, Memory=50%, Pods=40%)'',
            Infof 0 ''[DryRun] Would evict pod shop/web-1 on node n1, reason: Node over-utilization balancing - CPU=100%, Memory=50%, Pods=40%'',
            Infof 2 ''Successfully evicted pod shop/web-1 from over-utilized node n1'',
            Errorf ''Failed to evict pod shop/web-2: reached namespace shop eviction limit: 1'',
            Infof 0 ''[DryRun] Would evict pod blog/web-3 on node n1, reason: Node over-utilization balancing - CPU=100%, Memory=50%, Pods=40%'',
            Infof 2 ''Successfully evicted pod blog/web-3 from over-utilized node n1'',
            Infof 2 ''Evicted 2 pods from node n1'',
            Infof 0 ''LowNodeUtilization strategy completed. Evicted: 2, Skipped: 0''],
         requests = []\<rparr>)"
  using hot_cap hot_run by (rule conjI)

text \<open>
  Claim C5, amended. For every over-utilized node the strategy processes, the cap is
  between 1 and 5, and it is \<open>clamp(\<lfloor>maxExcess / 10\<rfloor>, 1, 5)\<close>, with \<open>maxExcess\<close> the
  largest of the CPU, memory and pods excesses over the target thresholds, when the
  three differences fit Go's \<open>int\<close>. The cap bounds the successful evictions of the
  node. A candidate whose gatekeeper call returns an error (a quota that is reached, or
  an error of the platform) takes no slot of the cap: the loop goes on with the same
  count. A pod that \<open>CanEvictPod\<close> refuses for safety is never a candidate, so it takes
  no slot either and no candidate is skipped in the loop. For a node whose pods the
  platform lists, the strategy runs the loop on the candidates with the cap, the count
  of the loop is at most the cap and is what the total of the statistics gains; over
  all nodes the strategy returns no error and the total gains at most the sum of the
  caps.
\<close>

theorem cap_counts_successful_evictions:
  "(int64 (CPUPercent nodeUtil - CPU (TargetThresholds cfg))
      \<and> int64 (MemoryPercent nodeUtil - Memory (TargetThresholds cfg))
      \<and> int64 (PodsPercent nodeUtil - Pods (TargetThresholds cfg))
    \<longrightarrow> calculateMaxEvictions cfg nodeUtil = spec_cap cfg nodeUtil)
   \<and> 1 \<le> calculateMaxEvictions cfg nodeUtil \<and> calculateMaxEvictions cfg nodeUtil \<le> 5
   \<and> (evicted < maxEvictions \<and> fst (CanEvictPod pod)
        \<and> EvictPod cl config pod (balancingReason nodeUtil) st = (Some err, st1)
      \<longrightarrow> evictLoop cl config nodeUtil maxEvictions (pod # pods)
            (evicted, evictedCount, skippedCount, st)
          = evictLoop cl config nodeUtil maxEvictions pods
              (evicted, evictedCount, skippedCount,
               emit (Errorf (''Failed to evict pod '' @ Namespace pod @ ''/'' @ Name pod
                       @ '': '' @ Error err)) st1))
   \<and> keepEvictable listed = keepEvictable (filter (\<lambda>pod. fst (CanEvictPod pod)) listed)
   \<and> (\<forall>pod \<in> set (sortPodsByPriority (keepEvictable listed)). fst (CanEvictPod pod))
   \<and> (Pods_List cl (requests st) (util_NodeName nodeUtil) = Inr listed \<longrightarrow>
        (case evictLoop cl config nodeUtil (calculateMaxEvictions cfg nodeUtil)
                (sortPodsByPriority (keepEvictable listed))
                (0, evictedCount, skippedCount,
                 emit (Infof 2 (''Processing over-utilized node: '' @ util_NodeName nodeUtil
                         @ '' ('' @ utilizationText nodeUtil @ '')'')) st) of
           (evicted', evictedCount', skippedCount', st2) \<Rightarrow>
             overUtilizedLoop cl config cfg (nodeUtil # nodes) (evictedCount, skippedCount, st)
               = overUtilizedLoop cl config cfg nodes
                   (evictedCount', skippedCount',
                    emit (Infof 2 (''Evicted '' @ show_int evicted' @ '' pods from node ''
                            @ util_NodeName nodeUtil)) st2)
             \<and> evicted' \<le> calculateMaxEvictions cfg nodeUtil
             \<and> TotalEvicted (stats st2) = TotalEvicted (stats st) + evicted'
             \<and> skippedCount' = skippedCount))
   \<and> fst (evictPodsFromOverUtilizedNodes cl config cfg overUtilizedNodes st) = None
   \<and> TotalEvicted (stats st)
        \<le> TotalEvicted (stats (snd (evictPodsFromOverUtilizedNodes cl config cfg
                                       overUtilizedNodes st)))
   \<and> TotalEvicted (stats (snd (evictPodsFromOverUtilizedNodes cl config cfg
                                 overUtilizedNodes st)))
        \<le> TotalEvicted (stats st)
            + sum_list (map (calculateMaxEvictions cfg) overUtilizedNodes)"
proof -
  have cap: "int64 (CPUPercent nodeUtil - CPU (TargetThresholds cfg))
      \<and> int64 (MemoryPercent nodeUtil - Memory (TargetThresholds cfg))
      \<and> int64 (PodsPercent nodeUtil - Pods (TargetThresholds cfg))
    \<longrightarrow> calculateMaxEvictions cfg nodeUtil = spec_cap cfg nodeUtil"
    using calculateMaxEvictions_spec by blast
  note range = calculateMaxEvictions_range [of cfg nodeUtil]
  have quota: "evicted < maxEvictions \<and> fst (CanEvictPod pod)
        \<and> EvictPod cl config pod (balancingReason nodeUtil) st = (Some err, st1)
      \<longrightarrow> evictLoop cl config nodeUtil maxEvictions (pod # pods)
            (evicted, evictedCount, skippedCount, st)
          = evictLoop cl config nodeUtil maxEvictions pods
              (evicted, evictedCount, skippedCount,
               emit (Errorf (''Failed to evict pod '' @ Namespace pod @ ''/'' @ Name pod
                       @ '': '' @ Error err)) st1)"
    by (cases "CanEvictPod pod") (simp add: balancingReason_def)
  have filt: "keepEvictable listed = keepEvictable (filter (\<lambda>pod. fst (CanEvictPod pod)) listed)"
    by (simp add: keepEvictable_filter conj_commute)
  have safe: "\<forall>pod \<in> set (sortPodsByPriority (keepEvictable listed)). fst (CanEvictPod pod)"
    by (simp add: sortPodsByPriority_set keepEvictable_filter)
  have node: "Pods_List cl (requests st) (util_NodeName nodeUtil) = Inr listed \<longrightarrow>
        (case evictLoop cl config nodeUtil (calculateMaxEvictions cfg nodeUtil)
                (sortPodsByPriority (keepEvictable listed))
                (0, evictedCount, skippedCount,
                 emit (Infof 2 (''Processing over-utilized node: '' @ util_NodeName nodeUtil
                         @ '' ('' @ utilizationText nodeUtil @ '')'')) st) of
           (evicted', evictedCount', skippedCount', st2) \<Rightarrow>
             overUtilizedLoop cl config cfg (nodeUtil # nodes) (evictedCount, skippedCount, st)
               = overUtilizedLoop cl config cfg nodes
                   (evictedCount', skippedCount',
                    emit (Infof 2 (''Evicted '' @ show_int evicted' @ '' pods from node ''
                            @ util_NodeName nodeUtil)) st2)
             \<and> evicted' \<le> calculateMaxEvictions cfg nodeUtil
             \<and> TotalEvicted (stats st2) = TotalEvicted (stats st) + evicted'
             \<and> skippedCount' = skippedCount)"
  proof
    assume listing: "Pods_List cl (requests st) (util_NodeName nodeUtil) = Inr listed"
    let ?st1 = "emit (Infof 2 (''Processing over-utilized node: '' @ util_NodeName nodeUtil
                         @ '' ('' @ utilizationText nodeUtil @ '')'')) st"
    obtain e ec sc st2 where loop:
      "evictLoop cl config nodeUtil (calculateMaxEvictions cfg nodeUtil)
         (sortPodsByPriority (keepEvictable listed)) (0, evictedCount, skippedCount, ?st1)
       = (e, ec, sc, st2)"
      by (cases "evictLoop cl config nodeUtil (calculateMaxEvictions cfg nodeUtil)
         (sortPodsByPriority (keepEvictable listed)) (0, evictedCount, skippedCount, ?st1)") auto
    have 1: "overUtilizedLoop cl config cfg (nodeUtil # nodes) (evictedCount, skippedCount, st)
               = overUtilizedLoop cl config cfg nodes
                   (ec, sc, emit (Infof 2 (''Evicted '' @ show_int e @ '' pods from node ''
                            @ util_NodeName nodeUtil)) st2)"
      unfolding overUtilizedLoop_step [OF listing] loop by simp
    from evictLoop_counts [OF loop] range
    have 2: "e \<le> calculateMaxEvictions cfg nodeUtil"
      and 3: "TotalEvicted (stats st2) = TotalEvicted (stats st) + e"
      by simp_all
    from evictLoop_no_skip [OF safe loop] have 4: "sc = skippedCount" .
    from 1 2 3 4 show "case evictLoop cl config nodeUtil (calculateMaxEvictions cfg nodeUtil)
                (sortPodsByPriority (keepEvictable listed))
                (0, evictedCount, skippedCount, ?st1) of
           (evicted', evictedCount', skippedCount', st2) \<Rightarrow>
             overUtilizedLoop cl config cfg (nodeUtil # nodes) (evictedCount, skippedCount, st)
               = overUtilizedLoop cl config cfg nodes
                   (evictedCount', skippedCount',
                    emit (Infof 2 (''Evicted '' @ show_int evicted' @ '' pods from node ''
                            @ util_NodeName nodeUtil)) st2)
             \<and> evicted' \<le> calculateMaxEvictions cfg nodeUtil
             \<and> TotalEvicted (stats st2) = TotalEvicted (stats st) + evicted'
             \<and> skippedCount' = skippedCount"
      by (simp only: loop prod.case simp_thms)
  qed
  obtain ec sc st' where all: "overUtilizedLoop cl config cfg overUtilizedNodes (0, 0, st)
      = (ec, sc, st')"
    by (cases "overUtilizedLoop cl config cfg overUtilizedNodes (0, 0, st)") auto
  have res: "evictPodsFromOverUtilizedNodes cl config cfg overUtilizedNodes st =
      (None, emit (Infof 0 (''LowNodeUtilization strategy completed. Evicted: ''
                      @ show_int ec @ '', Skipped: '' @ show_int sc)) st')"
    by (simp add: evictPodsFromOverUtilizedNodes_def all)
  from overUtilizedLoop_total [OF all]
  have tot: "fst (evictPodsFromOverUtilizedNodes cl config cfg overUtilizedNodes st) = None
   \<and> TotalEvicted (stats st)
        \<le> TotalEvicted (stats (snd (evictPodsFromOverUtilizedNodes cl config cfg
                                       overUtilizedNodes st)))
   \<and> TotalEvicted (stats (snd (evictPodsFromOverUtilizedNodes cl config cfg
                                 overUtilizedNodes st)))
        \<le> TotalEvicted (stats st)
            + sum_list (map (calculateMaxEvictions cfg) overUtilizedNodes)"
    by (simp add: res)
  from cap range quota filt safe node tot show ?thesis by blast
qed

lemma after_web1_stats:
  "stats after_web1 =
     \<lparr>TotalEvicted = 1, EvictedByNode = [(''n1'', 1)], EvictedByNamespace = [(''shop'', 1)],
      EvictedByReason = [(balancingReason hot_node, 1)], FailedEvictions = 0\<rparr>"
  by (simp add: after_web1_def EvictPod_def checkEvictionLimits_def config_with_def pod_on_def
      NewDefaultPodEvictor_def empty_stats_def lookup0_def updateStats_def incr_def Let_def)

text \<open>
  The node at 100% CPU with the target 80: the differences fit and the cap is 2. After
  one eviction in the namespace \<open>shop\<close> a second pod of \<open>shop\<close> is refused for quota
  and the loop goes on with the count 1. Of the four pods the platform lists on the
  node, the pod of \<open>kube-system\<close> is no candidate. The strategy on this node evicts 2
  pods, as many as the cap.
\<close>

theorem cap_counts_successful_evictions_witness:
  "int64 (CPUPercent hot_node - CPU (TargetThresholds low_config))
   \<and> int64 (MemoryPercent hot_node - Memory (TargetThresholds low_config))
   \<and> int64 (PodsPercent hot_node - Pods (TargetThresholds low_config))
   \<and> calculateMaxEvictions low_config hot_node = spec_cap low_config hot_node
   \<and> spec_cap low_config hot_node = 2
   \<and> (1::int) < 2
   \<and> fst (CanEvictPod (pod_on ''shop'' ''web-2'' ''n1''))
   \<and> EvictPod crowded_platform (config_with True 10 1 50) (pod_on ''shop'' ''web-2'' ''n1'')
        (balancingReason hot_node) after_web1 = (Some (NamespaceLimit ''shop'' 1), after_web1)
   \<and> evictLoop crowded_platform (config_with True 10 1 50) hot_node 2
        [pod_on ''shop'' ''web-2'' ''n1'', pod_on ''blog'' ''web-3'' ''n1'']
        (1, 1, 0, after_web1)
       = evictLoop crowded_platform (config_with True 10 1 50) hot_node 2
           [pod_on ''blog'' ''web-3'' ''n1'']
           (1, 1, 0,
            emit (Errorf (''Failed to evict pod '' @ Namespace (pod_on ''shop'' ''web-2'' ''n1'')
                    @ ''/'' @ Name (pod_on ''shop'' ''web-2'' ''n1'') @ '': ''
                    @ Error (NamespaceLimit ''shop'' 1))) after_web1)
   \<and> pod_on ''kube-system'' ''dns-1'' ''n1'' \<in> set crowd
   \<and> pod_on ''kube-system'' ''dns-1'' ''n1'' \<notin> set (sortPodsByPriority (keepEvictable crowd))
   \<and> pod_on ''shop'' ''web-2'' ''n1'' \<in> set (sortPodsByPriority (keepEvictable crowd))
   \<and> Pods_List crowded_platform (requests NewDefaultPodEvictor) (util_NodeName hot_node)
       = Inr crowd
   \<and> TotalEvicted (stats (snd (evictPodsFromOverUtilizedNodes crowded_platform
        (config_with True 10 1 50) low_config [hot_node] NewDefaultPodEvictor))) = 2
   \<and> TotalEvicted (stats NewDefaultPodEvictor)
        + sum_list (map (calculateMaxEvictions low_config) [hot_node]) = 2"
proof -
  have i1: "int64 (CPUPercent hot_node - CPU (TargetThresholds low_config))"
    and i2: "int64 (MemoryPercent hot_node - Memory (TargetThresholds low_config))"
    and i3: "int64 (PodsPercent hot_node - Pods (TargetThresholds low_config))"
    by (simp_all add: int64_def hot_node_def low_config_def)
  have lt: "(1::int) < 2" by simp
  have c2: "fst (CanEvictPod (pod_on ''shop'' ''web-2'' ''n1''))"
    by (simp add: CanEvictPod_def isSystemCriticalPod_def isDaemonSetPod_def isStaticPod_def
        isStandalonePod_def hasLocalStorage_def pod_on_def)
  have cd: "\<not> fst (CanEvictPod (pod_on ''kube-system'' ''dns-1'' ''n1''))"
    by (simp add: CanEvictPod_def isSystemCriticalPod_def pod_on_def)
  have ev: "EvictPod crowded_platform (config_with True 10 1 50) (pod_on ''shop'' ''web-2'' ''n1'')
        (balancingReason hot_node) after_web1 = (Some (NamespaceLimit ''shop'' 1), after_web1)"
    by (simp add: EvictPod_def after_web1_stats checkEvictionLimits_def config_with_def
        pod_on_def lookup0_def)
  have li: "Pods_List crowded_platform (requests NewDefaultPodEvictor) (util_NodeName hot_node)
       = Inr crowd"
    by (simp add: crowded_platform_def name_hot)
  have din: "pod_on ''kube-system'' ''dns-1'' ''n1'' \<in> set crowd"
    by (simp add: crowd_def)
  have win: "pod_on ''shop'' ''web-2'' ''n1'' \<in> set (sortPodsByPriority (keepEvictable crowd))"
    by (simp add: crowd_candidates)
  note q = cap_counts_successful_evictions [where evicted = 1 and maxEvictions = 2
      and pod = "pod_on ''shop'' ''web-2'' ''n1''" and cl = crowded_platform
      and config = "config_with True 10 1 50" and nodeUtil = hot_node and st = after_web1
      and err = "NamespaceLimit ''shop'' 1" and ?st1.0 = after_web1
      and pods = "[pod_on ''blog'' ''web-3'' ''n1'']" and evictedCount = 1
      and skippedCount = 0 and cfg = low_config and listed = crowd]
  note s = cap_counts_successful_evictions [where cl = crowded_platform
      and config = "config_with True 10 1 50" and nodeUtil = hot_node
      and st = NewDefaultPodEvictor and cfg = low_config and listed = crowd
      and overUtilizedNodes = "[hot_node]"]
  from q i1 i2 i3
  have 3: "calculateMaxEvictions low_config hot_node = spec_cap low_config hot_node"
    by blast
  with hot_cap have 4: "spec_cap low_config hot_node = 2"
    by simp
  from q lt c2 ev have 1: "evictLoop crowded_platform (config_with True 10 1 50) hot_node 2
        [pod_on ''shop'' ''web-2'' ''n1'', pod_on ''blog'' ''web-3'' ''n1'']
        (1, 1, 0, after_web1)
       = evictLoop crowded_platform (config_with True 10 1 50) hot_node 2
           [pod_on ''blog'' ''web-3'' ''n1'']
           (1, 1, 0,
            emit (Errorf (''Failed to evict pod '' @ Namespace (pod_on ''shop'' ''web-2'' ''n1'')
                    @ ''/'' @ Name (pod_on ''shop'' ''web-2'' ''n1'') @ '': ''
                    @ Error (NamespaceLimit ''shop'' 1))) after_web1)"
    by blast
  from s have "\<forall>pod \<in> set (sortPodsByPriority (keepEvictable crowd)). fst (CanEvictPod pod)"
    by blast
  with cd have dout:
    "pod_on ''kube-system'' ''dns-1'' ''n1'' \<notin> set (sortPodsByPriority (keepEvictable crowd))"
    by blast
  have t: "TotalEvicted (stats (snd (evictPodsFromOverUtilizedNodes crowded_platform
        (config_with True 10 1 50) low_config [hot_node] NewDefaultPodEvictor))) = 2"
    by (simp add: hot_run)
  have b: "TotalEvicted (stats NewDefaultPodEvictor)
        + sum_list (map (calculateMaxEvictions low_config) [hot_node]) = 2"
    by (simp add: hot_cap NewDefaultPodEvictor_def empty_stats_def)
  from i1 i2 i3 3 4 lt c2 ev 1 din dout win li t b show ?thesis
    by blast
qed

section \<open>Strategy RemoveDuplicates: which pods are evicted\<close>

subsection \<open>The bubble sort is the stable sort by creation time\<close>

lemma inner_length [simp]: "length (sortPodsByAge_inner i j xs) = length xs"
proof (induction i j xs rule: sortPodsByAge_inner.induct)
  case (1 i j xs)
  show ?case
  proof (cases "j < length xs - i - 1")
    case True
    with 1 show ?thesis
      by (subst sortPodsByAge_inner.simps) simp
  next
    case False
    then show ?thesis
      by (subst sortPodsByAge_inner.simps) simp
  qed
qed

lemma inner_mset [simp]: "mset (sortPodsByAge_inner i j xs) = mset xs"
proof (induction i j xs rule: sortPodsByAge_inner.induct)
  case (1 i j xs)
  show ?case
  proof (cases "j < length xs - i - 1")
    case True
    then have "j < length xs" and "j + 1 < length xs" by simp_all
    then have "mset (xs[j := xs ! (j + 1), j + 1 := xs ! j]) = mset xs"
      using mset_swap [of "j + 1" xs j] by simp
    with 1 True show ?thesis
      by (subst sortPodsByAge_inner.simps) simp
  next
    case False
    then show ?thesis
      by (subst sortPodsByAge_inner.simps) simp
  qed
qed

lemma swap_adjacent:
  assumes "Suc j < length xs"
  shows "xs[j := xs ! Suc j, Suc j := xs ! j] = take j xs @ [xs ! Suc j, xs ! j] @ drop (Suc (Suc j)) xs"
    and "xs = take j xs @ [xs ! j, xs ! Suc j] @ drop (Suc (Suc j)) xs"
proof -
  from assms have j: "j < length xs" by simp
  show 2: "xs = take j xs @ [xs ! j, xs ! Suc j] @ drop (Suc (Suc j)) xs"
    using assms j by (simp add: Cons_nth_drop_Suc)
  show "xs[j := xs ! Suc j, Suc j := xs ! j] = take j xs @ [xs ! Suc j, xs ! j] @ drop (Suc (Suc j)) xs"
    using assms j
    by (intro nth_equalityI)
       (auto simp: nth_list_update nth_append nth_Cons' min_def intro!: arg_cong [where f = "nth xs"])
qed

lemma inner_filter:
  "filter (\<lambda>x. CreationTimestamp x = c) (sortPodsByAge_inner i j xs)
     = filter (\<lambda>x. CreationTimestamp x = c) xs"
proof (induction i j xs rule: sortPodsByAge_inner.induct)
  case (1 i j xs)
  show ?case
  proof (cases "j < length xs - i - 1")
    case True
    then have s: "Suc j < length xs" by simp
    show ?thesis
    proof (cases "After (CreationTimestamp (xs ! j)) (CreationTimestamp (xs ! (j + 1)))")
      case sw: True
      then have ne: "CreationTimestamp (xs ! j) \<noteq> CreationTimestamp (xs ! Suc j)"
        by (simp add: After_def)
      have "filter (\<lambda>x. CreationTimestamp x = c) (xs[j := xs ! Suc j, Suc j := xs ! j])
              = filter (\<lambda>x. CreationTimestamp x = c)
                  (take j xs @ [xs ! Suc j, xs ! j] @ drop (Suc (Suc j)) xs)"
        by (simp only: swap_adjacent(1) [OF s])
      also have "\<dots> = filter (\<lambda>x. CreationTimestamp x = c)
                  (take j xs @ [xs ! j, xs ! Suc j] @ drop (Suc (Suc j)) xs)"
        using ne by auto
      also have "\<dots> = filter (\<lambda>x. CreationTimestamp x = c) xs"
        using swap_adjacent(2) [OF s] by simp
      finally show ?thesis
        using 1 True sw by (subst sortPodsByAge_inner.simps) simp
    next
      case False
      with 1 True show ?thesis
        by (subst sortPodsByAge_inner.simps) simp
    qed
  next
    case False
    then show ?thesis
      by (subst sortPodsByAge_inner.simps) simp
  qed
qed

lemma inner_drop:
  "drop (length xs - i) (sortPodsByAge_inner i j xs) = drop (length xs - i) xs"
proof (induction i j xs rule: sortPodsByAge_inner.induct)
  case (1 i j xs)
  show ?case
  proof (cases "j < length xs - i - 1")
    case True
    let ?xs' = "if After (CreationTimestamp (xs ! j)) (CreationTimestamp (xs ! (j + 1)))
                then xs[j := xs ! (j + 1), j + 1 := xs ! j] else xs"
    have len: "length ?xs' = length xs" by simp
    from True have "j < length xs - i" and "j + 1 < length xs - i" by simp_all
    then have same: "drop (length xs - i) ?xs' = drop (length xs - i) xs"
      by simp
    from "1.IH" [OF True]
    have "drop (length xs - i) (sortPodsByAge_inner i (j + 1) ?xs') = drop (length xs - i) ?xs'"
      by (simp only: len)
    moreover have "sortPodsByAge_inner i j xs = sortPodsByAge_inner i (j + 1) ?xs'"
      using True by (subst sortPodsByAge_inner.simps) simp
    ultimately show ?thesis
      by (simp only: same)
  next
    case False
    then show ?thesis
      by (subst sortPodsByAge_inner.simps) simp
  qed
qed

lemma inner_max:
  assumes "\<forall>k<j. CreationTimestamp (xs ! k) \<le> CreationTimestamp (xs ! j)"
    and "j \<le> length xs - i - 1"
  shows "\<forall>k \<le> length xs - i - 1.
           CreationTimestamp (sortPodsByAge_inner i j xs ! k)
             \<le> CreationTimestamp (sortPodsByAge_inner i j xs ! (length xs - i - 1))"
  using assms
proof (induction i j xs rule: sortPodsByAge_inner.induct)
  case (1 i j xs)
  show ?case
  proof (cases "j < length xs - i - 1")
    case True
    then have s: "Suc j < length xs" by simp
    let ?xs' = "if After (CreationTimestamp (xs ! j)) (CreationTimestamp (xs ! (j + 1)))
                then xs[j := xs ! (j + 1), j + 1 := xs ! j] else xs"
    have len: "length ?xs' = length xs" by simp
    have pre: "\<forall>k<j + 1. CreationTimestamp (?xs' ! k) \<le> CreationTimestamp (?xs' ! (j + 1))"
    proof (intro allI impI)
      fix k assume "k < j + 1"
      then consider "k < j" | "k = j" by linarith
      then show "CreationTimestamp (?xs' ! k) \<le> CreationTimestamp (?xs' ! (j + 1))"
      proof cases
        case 1
        with "1.prems"(1) have "CreationTimestamp (xs ! k) \<le> CreationTimestamp (xs ! j)" by simp
        with 1 s show ?thesis
          by (auto simp: After_def nth_list_update)
      next
        case 2
        with s show ?thesis
          by (auto simp: After_def nth_list_update)
      qed
    qed
    have bound: "j + 1 \<le> length ?xs' - i - 1"
      using True by simp
    from "1.IH" [OF True pre bound]
    have "\<forall>k \<le> length xs - i - 1.
           CreationTimestamp (sortPodsByAge_inner i (j + 1) ?xs' ! k)
             \<le> CreationTimestamp (sortPodsByAge_inner i (j + 1) ?xs' ! (length xs - i - 1))"
      by (simp only: len)
    moreover have "sortPodsByAge_inner i j xs = sortPodsByAge_inner i (j + 1) ?xs'"
      using True by (subst sortPodsByAge_inner.simps) simp
    ultimately show ?thesis by simp
  next
    case False
    with "1.prems"(2) have eq: "j = length xs - i - 1" by simp
    have "sortPodsByAge_inner i j xs = xs"
      using False by (subst sortPodsByAge_inner.simps) simp
    with "1.prems"(1) eq show ?thesis
      by (auto simp: le_less)
  qed
qed

lemma outer_length [simp]: "length (sortPodsByAge_outer n i xs) = length xs"
proof (induction n i xs rule: sortPodsByAge_outer.induct)
  case (1 n i xs)
  then show ?case
    by (subst sortPodsByAge_outer.simps) simp
qed

lemma outer_mset [simp]: "mset (sortPodsByAge_outer n i xs) = mset xs"
proof (induction n i xs rule: sortPodsByAge_outer.induct)
  case (1 n i xs)
  then show ?case
    by (subst sortPodsByAge_outer.simps) simp
qed

lemma outer_filter:
  "filter (\<lambda>x. CreationTimestamp x = c) (sortPodsByAge_outer n i xs)
     = filter (\<lambda>x. CreationTimestamp x = c) xs"
proof (induction n i xs rule: sortPodsByAge_outer.induct)
  case (1 n i xs)
  then show ?case
    by (subst sortPodsByAge_outer.simps) (simp add: inner_filter)
qed

lemma inner_step:
  assumes inv: "sortedFrom (length xs - i) xs" and i: "i < length xs - 1"
  shows "sortedFrom (length xs - (i + 1)) (sortPodsByAge_inner i 0 xs)"
proof -
  let ?n = "length xs"
  let ?t = "?n - i"
  let ?ys = "sortPodsByAge_inner i 0 xs"
  from i have t: "2 \<le> ?t" "?t \<le> ?n" by simp_all
  then have t1: "?t - 1 < ?n" and tS: "Suc (?t - 1) = ?t" by simp_all
  have d: "drop ?t ?ys = drop ?t xs"
    by (rule inner_drop)
  have "mset (take ?t ?ys) + mset (drop ?t ?ys) = mset (take ?t xs) + mset (drop ?t xs)"
    by (simp only: mset_append [symmetric] append_take_drop_id inner_mset)
  with d have m: "mset (take ?t ?ys) = mset (take ?t xs)"
    by simp
  then have s: "set (take ?t ?ys) = set (take ?t xs)"
    by (rule mset_eq_setD)
  have mx: "\<forall>k \<le> ?t - 1. CreationTimestamp (?ys ! k) \<le> CreationTimestamp (?ys ! (?t - 1))"
    using inner_max [of 0 xs i] by (simp add: diff_diff_eq)
  have tk: "take ?t ?ys = take (?t - 1) ?ys @ [?ys ! (?t - 1)]"
    using take_Suc_conv_app_nth [of "?t - 1" ?ys] t1 tS by simp
  have dr: "drop (?t - 1) ?ys = ?ys ! (?t - 1) # drop ?t xs"
    using Cons_nth_drop_Suc [of "?t - 1" ?ys] t1 tS d by simp
  have top: "?ys ! (?t - 1) \<in> set (take ?t xs)"
    using tk s by (metis in_set_conv_decomp)
  have low: "set (take (?t - 1) ?ys) \<subseteq> set (take ?t xs)"
    using tk s by (metis set_append Un_upper1)
  from inv have sd: "sorted (map CreationTimestamp (drop ?t xs))"
    and cross: "\<forall>x \<in> set (take ?t xs). \<forall>y \<in> set (drop ?t xs).
                  CreationTimestamp x \<le> CreationTimestamp y"
    by (simp_all add: sortedFrom_def)
  have 1: "sorted (map CreationTimestamp (drop (?t - 1) ?ys))"
  proof -
    have "sorted (map CreationTimestamp (?ys ! (?t - 1) # drop ?t xs))"
      using sd cross top by simp
    then show ?thesis
      by (simp only: dr)
  qed
  have 2: "\<forall>x \<in> set (take (?t - 1) ?ys). \<forall>y \<in> set (drop (?t - 1) ?ys).
             CreationTimestamp x \<le> CreationTimestamp y"
  proof (intro ballI)
    fix x y
    assume x: "x \<in> set (take (?t - 1) ?ys)" and y: "y \<in> set (drop (?t - 1) ?ys)"
    from y dr consider "y = ?ys ! (?t - 1)" | "y \<in> set (drop ?t xs)" by auto
    then show "CreationTimestamp x \<le> CreationTimestamp y"
    proof cases
      case 1
      from x obtain k where "k < ?t - 1" and "x = ?ys ! k"
        by (auto simp: in_set_conv_nth)
      with mx 1 show ?thesis by simp
    next
      case 2
      with x low cross show ?thesis by blast
    qed
  qed
  have "?n - (i + 1) = ?t - 1" by simp
  with 1 2 show ?thesis
    by (simp add: sortedFrom_def)
qed

lemma outer_sorted:
  assumes "length xs = n" and "sortedFrom (n - i) xs" and "i \<le> n - 1"
  shows "sorted (map CreationTimestamp (sortPodsByAge_outer n i xs))"
  using assms
proof (induction n i xs rule: sortPodsByAge_outer.induct)
  case (1 n i xs)
  show ?case
  proof (cases "i < n - 1")
    case True
    have "sortedFrom (n - (i + 1)) (sortPodsByAge_inner i 0 xs)"
      using inner_step [of xs i] "1.prems" True by simp
    moreover have "length (sortPodsByAge_inner i 0 xs) = n"
      using "1.prems" by simp
    moreover have "i + 1 \<le> n - 1"
      using True by simp
    ultimately have "sorted (map CreationTimestamp
        (sortPodsByAge_outer n (i + 1) (sortPodsByAge_inner i 0 xs)))"
      using "1.IH" [OF True] by blast
    with True show ?thesis
      by (subst sortPodsByAge_outer.simps) simp
  next
    case False
    with "1.prems" have le: "n - i \<le> 1" by simp
    have "sorted (map CreationTimestamp (take (n - i) xs @ drop (n - i) xs))"
      unfolding map_append sorted_append
    proof (intro conjI)
      have "length (map CreationTimestamp (take (n - i) xs)) \<le> 1"
        using le by simp
      then show "sorted (map CreationTimestamp (take (n - i) xs))"
        by (rule sorted01)
      show "sorted (map CreationTimestamp (drop (n - i) xs))"
        using "1.prems" by (simp add: sortedFrom_def)
      show "\<forall>x\<in>set (map CreationTimestamp (take (n - i) xs)).
              \<forall>y\<in>set (map CreationTimestamp (drop (n - i) xs)). x \<le> y"
        using "1.prems" by (auto simp: sortedFrom_def)
    qed
    then have "sorted (map CreationTimestamp xs)" by simp
    with False show ?thesis
      by (subst sortPodsByAge_outer.simps) simp
  qed
qed

lemma sortPodsByAge_stable: "sortPodsByAge pods = sort_key CreationTimestamp pods"
proof (rule properties_for_sort_key [symmetric])
  show "mset (sortPodsByAge pods) = mset pods"
    by (simp add: sortPodsByAge_def)
  show "filter (\<lambda>x. CreationTimestamp k = CreationTimestamp x) (sortPodsByAge pods)
          = filter (\<lambda>x. CreationTimestamp k = CreationTimestamp x) pods" for k
  proof -
    have eqn: "(\<lambda>x. CreationTimestamp k = CreationTimestamp x)
            = (\<lambda>x. CreationTimestamp x = CreationTimestamp k)"
      by auto
    show ?thesis
      unfolding sortPodsByAge_def eqn by (rule outer_filter)
  qed
  show "sorted (map CreationTimestamp (sortPodsByAge pods))"
    unfolding sortPodsByAge_def
    by (rule outer_sorted) (simp_all add: sortedFrom_def)
qed

subsection \<open>Duplicate nodes and the pods that are offered\<close>

lemma collectDuplicateNodes_eq:
  "collectDuplicateNodes m acc = acc @ map fst (filter (\<lambda>(nodeName, pods). 1 < length pods) m)"
  by (induction m arbitrary: acc) auto

lemma findDuplicateNodes_few: "length m < 2 \<Longrightarrow> findDuplicateNodes m = []"
  by (simp add: findDuplicateNodes_def)

lemma findDuplicateNodes_member:
  assumes "2 \<le> length m" and "(nodeName, pods) \<in> set m" and "1 < length pods"
  shows "nodeName \<in> set (findDuplicateNodes m)"
proof -
  from assms(2,3) have "nodeName \<in> set (collectDuplicateNodes m [])"
    by (force simp: collectDuplicateNodes_eq)
  moreover from this have "collectDuplicateNodes m [] \<noteq> []"
    by auto
  ultimately show ?thesis
    using assms(1) by (simp add: findDuplicateNodes_def Let_def)
qed

lemma evictDuplicates_step:
  assumes "i < length sortedPods"
  shows "evictDuplicates cl config nodeName sortedPods i vars
     = evictDuplicates cl config nodeName sortedPods (i + 1)
         (offerDuplicate cl config nodeName vars (sortedPods ! i))"
proof -
  obtain evictedCount skippedCount st where v: "vars = (evictedCount, skippedCount, st)"
    by (cases vars)
  show ?thesis
    unfolding v
    by (subst evictDuplicates.simps)
       (simp add: assms offerDuplicate_def Let_def split: prod.splits option.splits)
qed

lemma evictDuplicates_done:
  "\<not> i < length sortedPods \<Longrightarrow> evictDuplicates cl config nodeName sortedPods i vars = vars"
  by (cases vars) (simp add: evictDuplicates.simps)

lemma evictDuplicates_fold:
  "evictDuplicates cl config nodeName sortedPods i vars
     = foldl (offerDuplicate cl config nodeName) vars (drop i sortedPods)"
proof (induction "length sortedPods - i" arbitrary: i vars)
  case 0
  then show ?case
    by (simp add: evictDuplicates_done)
next
  case (Suc d)
  then have lt: "i < length sortedPods" and d: "d = length sortedPods - (i + 1)"
    by simp_all
  have "drop i sortedPods = sortedPods ! i # drop (i + 1) sortedPods"
    using lt by (simp add: Cons_nth_drop_Suc)
  then show ?case
    using Suc.hyps(1) [OF d] by (simp add: evictDuplicates_step [OF lt])
qed

lemma findDuplicateNodes_many:
  assumes "2 \<le> length m" and "(nodeName, pods) \<in> set m" and "1 < length pods"
  shows "findDuplicateNodes m = map fst (filter (\<lambda>(nodeName, pods). 1 < length pods) m)"
proof -
  from assms(2,3) have "nodeName \<in> set (collectDuplicateNodes m [])"
    by (force simp: collectDuplicateNodes_eq)
  then have "collectDuplicateNodes m [] \<noteq> []"
    by auto
  then show ?thesis
    using assms(1) by (simp add: findDuplicateNodes_def Let_def collectDuplicateNodes_eq)
qed

lemma findDuplicateNodes_empty_iff:
  "findDuplicateNodes m = [] \<longleftrightarrow>
     length m < 2
     \<or> ((\<forall>(nodeName, pods) \<in> set m. length pods \<le> 1) \<and> snd (findMaxNode m (0, '''')) = '''')"
proof (cases "length m < 2")
  case True
  then show ?thesis by (simp add: findDuplicateNodes_def)
next
  case False
  show ?thesis
  proof (cases "\<forall>(nodeName, pods) \<in> set m. length pods \<le> 1")
    case True
    then have "filter (\<lambda>(nodeName, pods). 1 < length pods) m = []"
      by (auto simp: filter_empty_conv)
    then have "collectDuplicateNodes m [] = []"
      by (simp add: collectDuplicateNodes_eq)
    with False True show ?thesis
      by (auto simp: findDuplicateNodes_def Let_def split: prod.splits)
  next
    case no: False
    then obtain nodeName pods where "(nodeName, pods) \<in> set m" and "1 < length pods"
      by force
    with False have "nodeName \<in> set (findDuplicateNodes m)"
      by (simp add: findDuplicateNodes_member)
    then have "findDuplicateNodes m \<noteq> []"
      by auto
    with False no show ?thesis by simp
  qed
qed

lemma findMaxNode_name:
  "snd (findMaxNode m (maxPods, maxNode)) = maxNode
   \<or> snd (findMaxNode m (maxPods, maxNode)) \<in> fst ` set m"
  by (induction m arbitrary: maxPods maxNode) (auto, blast+)

lemma findMaxNode_found:
  "\<exists>(nodeName, pods) \<in> set m. maxPods < length pods
   \<Longrightarrow> snd (findMaxNode m (maxPods, maxNode)) \<in> fst ` set m"
proof (induction m arbitrary: maxPods maxNode)
  case Nil
  then show ?case by simp
next
  case (Cons entry m)
  obtain nodeName pods where e: "entry = (nodeName, pods)"
    by (cases entry)
  show ?case
  proof (cases "maxPods < length pods")
    case True
    with findMaxNode_name [of m "length pods" nodeName] show ?thesis
      by (auto simp: e)
  next
    case False
    with Cons.prems have "\<exists>(nodeName, pods) \<in> set m. maxPods < length pods"
      by (auto simp: e)
    from Cons.IH [OF this, of maxNode] False show ?thesis
      by (simp add: e)
  qed
qed

lemma findDuplicateNodes_spread:
  assumes "2 \<le> length m" and "\<forall>(nodeName, pods) \<in> set m. pods \<noteq> [] \<and> nodeName \<noteq> ''''"
  shows "findDuplicateNodes m \<noteq> []"
proof -
  from assms(1) obtain entry where en: "entry \<in> set m"
    by (cases m) auto
  obtain nodeName pods where e: "entry = (nodeName, pods)"
    by (cases entry)
  from en e assms(2) have "0 < length pods"
    by auto
  with en e have "\<exists>(nodeName, pods) \<in> set m. 0 < length pods"
    by auto
  from findMaxNode_found [OF this, of "''''"] assms(2)
  have "snd (findMaxNode m (0, '''')) \<noteq> ''''"
    by auto
  with assms(1) show ?thesis
    by (simp add: findDuplicateNodes_empty_iff)
qed

lemma podsOn_short:
  assumes "\<forall>(nodeName, pods) \<in> set m. length pods \<le> 1"
  shows "length (podsOn m nodeName) \<le> 1"
proof (cases "map_of m nodeName")
  case None
  then show ?thesis by (simp add: podsOn_def)
next
  case (Some pods)
  then have "(nodeName, pods) \<in> set m"
    by (rule map_of_SomeD)
  with assms Some show ?thesis
    by (auto simp: podsOn_def)
qed

lemma duplicateNodesLoop_idle:
  assumes "\<forall>(nodeName, pods) \<in> set m. length pods \<le> 1"
  shows "duplicateNodesLoop cl config m duplicateNodes vars = vars"
proof (induction duplicateNodes)
  case Nil
  then show ?case by simp
next
  case (Cons nodeName duplicateNodes)
  from podsOn_short [OF assms, of nodeName] Cons show ?case
    by (simp add: Let_def)
qed

lemma podsOn_distinct:
  "distinct (map fst m) \<Longrightarrow> (nodeName, pods) \<in> set m \<Longrightarrow> podsOn m nodeName = pods"
  by (simp add: podsOn_def)

lemma signaturesLoop_step:
  "findDuplicateNodes nodePodsMap \<noteq> [] \<Longrightarrow>
     signaturesLoop cl config ((signature, nodePodsMap) # groups) (evictedCount, skippedCount, st)
       = signaturesLoop cl config groups
           (duplicateNodesLoop cl config nodePodsMap (findDuplicateNodes nodePodsMap)
              (evictedCount, skippedCount,
               emit (Infof 2 (''Found duplicates for signature '' @ signature
                       @ '' on nodes: ['' @ Join (findDuplicateNodes nodePodsMap) '' ''
                       @ '']''))
                 (emit (Infof 3 (''Processing pod signature: '' @ signature)) st)))"
  by (simp add: Let_def)

lemma text_0: "show_int 0 = ''0''" and text_1: "show_nat (Suc 0) = ''1''"
  by (simp_all add: show_int_def show_nat.simps)

lemma web_signature:
  "GeneratePodSignature (pod_at t name node) = ''shop|ReplicaSet:web|nginx''"
  by (simp add: GeneratePodSignature_def GetPodImages_def pod_at_def pod_on_def Let_def)

lemma web_processable:
  "shouldProcessPod dup_config (pod_at t name node)"
  "shouldProcessNamespace dup_config (Namespace (pod_at t name node))"
  "Phase (pod_at t name node) = PodRunning"
  by (simp_all add: dup_config_def shouldProcessNamespace_def shouldProcessPod_def pod_at_def
      pod_on_def)

text \<open>
  Claim C6, as the claim states it, fails. Two pods of one signature run on the node
  \<open>n1\<close> and none elsewhere: the group has one node, whose list has two pods.
  \<open>findDuplicateNodes\<close> selects no node, the group is skipped and nothing is offered to
  the gatekeeper.
\<close>

theorem single_node_duplicates_skipped:
  "length one_node_group < 2
   \<and> 1 < length (podsOn one_node_group ''n1'')
   \<and> findDuplicateNodes one_node_group = []
   \<and> RemoveDuplicates_Execute twin_platform (config_with True 10 5 50) dup_config
        [ready_node ''n1'', ready_node ''n2''] NewDefaultPodEvictor =
       (None,
        \<lparr>stats = \<lparr>TotalEvicted = 0, EvictedByNode = [], EvictedByNamespace = [],
                  EvictedByReason = [], FailedEvictions = 0\<rparr>,
         klog = [Infof 0 ''Executing RemoveDuplicates strategy'',
                 Infof 2 ''Processing node: n1'',
                 Infof 2 ''Processing node: n2'',
                 Infof 2 ''Found 1 unique pod signatures'',
                 Infof 3 ''Processing pod signature: shop|ReplicaSet:web|nginx'',
                 Infof 0 ''RemoveDuplicates strategy completed. Evicted: 0, Skipped: 0''],
         requests = []\<rparr>)"
proof -
  have g: "groupPodsBySignature twin_platform dup_config [ready_node ''n1'', ready_node ''n2'']
             (emit (Infof 0 ''Executing RemoveDuplicates strategy'') NewDefaultPodEvictor)
           = (Inr [(''shop|ReplicaSet:web|nginx'', one_node_group)],
              \<lparr>stats = empty_stats,
               klog = [Infof 0 ''Executing RemoveDuplicates strategy'',
                       Infof 2 ''Processing node: n1'', Infof 2 ''Processing node: n2''],
               requests = []\<rparr>)"
    by (simp add: groupPodsBySignature_def getProcessablePods_def twin_platform_def
        ready_node_def web_processable web_signature nodesOf_def podsOn_def one_node_group_def
        emit_def NewDefaultPodEvictor_def Let_def)
  have f: "findDuplicateNodes one_node_group = []"
    by (simp add: findDuplicateNodes_def one_node_group_def)
  have e: "RemoveDuplicates_Execute twin_platform (config_with True 10 5 50) dup_config
        [ready_node ''n1'', ready_node ''n2''] NewDefaultPodEvictor =
       (None,
        \<lparr>stats = \<lparr>TotalEvicted = 0, EvictedByNode = [], EvictedByNamespace = [],
                  EvictedByReason = [], FailedEvictions = 0\<rparr>,
         klog = [Infof 0 ''Executing RemoveDuplicates strategy'',
                 Infof 2 ''Processing node: n1'',
                 Infof 2 ''Processing node: n2'',
                 Infof 2 ''Found 1 unique pod signatures'',
                 Infof 3 ''Processing pod signature: shop|ReplicaSet:web|nginx'',
                 Infof 0 ''RemoveDuplicates strategy completed. Evicted: 0, Skipped: 0''],
         requests = []\<rparr>)"
    unfolding RemoveDuplicates_Execute_def Let_def g
    by (simp add: f emit_def text_0 text_1 empty_stats_def)
  have l: "length one_node_group < 2" and p: "1 < length (podsOn one_node_group ''n1'')"
    by (simp_all add: one_node_group_def podsOn_def)
  from l p f e show ?thesis by blast
qed

text \<open>
  Claim C6, amended. A signature group is skipped, no duplicate node being selected,
  exactly when it has fewer than 2 nodes, or no node of it has more than one pod and
  \<open>findMaxNode\<close> names no node; so a group with fewer than 2 nodes is skipped also when
  its node has more than one pod, and a group with at least 2 nodes, each named and with
  a pod, is not skipped. In a group with at least 2 nodes of which one has more than one
  pod, the duplicate nodes are the nodes whose list has more than one pod, in the order
  of the group, and the strategy runs the loop over these nodes for the group. In a
  group where no node has more than one pod, nothing is offered to the gatekeeper: the
  strategy only logs. On a duplicate node with more than one pod the pods are sorted by
  ascending creation time (the sort is stable: \<open>sortPodsByAge\<close> is
  \<open>sort_key CreationTimestamp\<close>), the first of the sorted list, an oldest pod, is kept,
  and all the others are offered to the gatekeeper in that order.
\<close>

theorem duplicates_need_two_nodes:
  "(length nodePodsMap < 2 \<longrightarrow>
      findDuplicateNodes nodePodsMap = []
      \<and> signaturesLoop cl config ((signature, nodePodsMap) # groups)
            (evictedCount, skippedCount, st)
          = signaturesLoop cl config groups
              (evictedCount, skippedCount,
               emit (Infof 3 (''Processing pod signature: '' @ signature)) st))
   \<and> (findDuplicateNodes nodePodsMap = [] \<longleftrightarrow>
        length nodePodsMap < 2
        \<or> ((\<forall>(nodeName, pods) \<in> set nodePodsMap. length pods \<le> 1)
            \<and> snd (findMaxNode nodePodsMap (0, '''')) = ''''))
   \<and> (2 \<le> length nodePodsMap
        \<and> (\<forall>(nodeName, pods) \<in> set nodePodsMap. pods \<noteq> [] \<and> nodeName \<noteq> '''')
        \<longrightarrow> findDuplicateNodes nodePodsMap \<noteq> [])
   \<and> (2 \<le> length nodePodsMap \<and> (nodeName, pods) \<in> set nodePodsMap \<and> 1 < length pods
        \<longrightarrow> nodeName \<in> set (findDuplicateNodes nodePodsMap)
            \<and> findDuplicateNodes nodePodsMap
                = map fst (filter (\<lambda>(nodeName, pods). 1 < length pods) nodePodsMap)
            \<and> signaturesLoop cl config ((signature, nodePodsMap) # groups)
                  (evictedCount, skippedCount, st)
                = signaturesLoop cl config groups
                    (duplicateNodesLoop cl config nodePodsMap (findDuplicateNodes nodePodsMap)
                       (evictedCount, skippedCount,
                        emit (Infof 2 (''Found duplicates for signature '' @ signature
                                @ '' on nodes: [''
                                @ Join (findDuplicateNodes nodePodsMap) '' '' @ '']''))
                          (emit (Infof 3 (''Processing pod signature: '' @ signature)) st))))
   \<and> ((\<forall>(nodeName, pods) \<in> set nodePodsMap. length pods \<le> 1) \<longrightarrow>
        duplicateNodesLoop cl config nodePodsMap duplicateNodes vars = vars
        \<and> signaturesLoop cl config ((signature, nodePodsMap) # groups)
              (evictedCount, skippedCount, st)
            = signaturesLoop cl config groups
                (evictedCount, skippedCount,
                 if findDuplicateNodes nodePodsMap = []
                 then emit (Infof 3 (''Processing pod signature: '' @ signature)) st
                 else emit (Infof 2 (''Found duplicates for signature '' @ signature
                              @ '' on nodes: [''
                              @ Join (findDuplicateNodes nodePodsMap) '' '' @ '']''))
                        (emit (Infof 3 (''Processing pod signature: '' @ signature)) st)))
   \<and> (distinct (map fst nodePodsMap) \<and> (nodeName, pods) \<in> set nodePodsMap
        \<longrightarrow> podsOn nodePodsMap nodeName = pods)
   \<and> sortPodsByAge pods = sort_key CreationTimestamp pods
   \<and> (1 < length (podsOn nodePodsMap nodeName) \<longrightarrow>
        duplicateNodesLoop cl config nodePodsMap (nodeName # duplicateNodes) vars
          = duplicateNodesLoop cl config nodePodsMap duplicateNodes
              (foldl (offerDuplicate cl config nodeName) vars
                 (tl (sort_key CreationTimestamp (podsOn nodePodsMap nodeName)))))"
proof -
  have few: "length nodePodsMap < 2 \<longrightarrow>
      findDuplicateNodes nodePodsMap = []
      \<and> signaturesLoop cl config ((signature, nodePodsMap) # groups)
            (evictedCount, skippedCount, st)
          = signaturesLoop cl config groups
              (evictedCount, skippedCount,
               emit (Infof 3 (''Processing pod signature: '' @ signature)) st)"
    by (simp add: findDuplicateNodes_few Let_def)
  note skip = findDuplicateNodes_empty_iff [of nodePodsMap]
  have spread: "2 \<le> length nodePodsMap
        \<and> (\<forall>(nodeName, pods) \<in> set nodePodsMap. pods \<noteq> [] \<and> nodeName \<noteq> '''')
        \<longrightarrow> findDuplicateNodes nodePodsMap \<noteq> []"
    using findDuplicateNodes_spread by blast
  have sel: "2 \<le> length nodePodsMap \<and> (nodeName, pods) \<in> set nodePodsMap \<and> 1 < length pods
        \<longrightarrow> nodeName \<in> set (findDuplicateNodes nodePodsMap)
            \<and> findDuplicateNodes nodePodsMap
                = map fst (filter (\<lambda>(nodeName, pods). 1 < length pods) nodePodsMap)
            \<and> signaturesLoop cl config ((signature, nodePodsMap) # groups)
                  (evictedCount, skippedCount, st)
                = signaturesLoop cl config groups
                    (duplicateNodesLoop cl config nodePodsMap (findDuplicateNodes nodePodsMap)
                       (evictedCount, skippedCount,
                        emit (Infof 2 (''Found duplicates for signature '' @ signature
                                @ '' on nodes: [''
                                @ Join (findDuplicateNodes nodePodsMap) '' '' @ '']''))
                          (emit (Infof 3 (''Processing pod signature: '' @ signature)) st)))"
  proof
    assume h: "2 \<le> length nodePodsMap \<and> (nodeName, pods) \<in> set nodePodsMap \<and> 1 < length pods"
    then have m: "nodeName \<in> set (findDuplicateNodes nodePodsMap)"
      using findDuplicateNodes_member by blast
    then have ne: "findDuplicateNodes nodePodsMap \<noteq> []"
      by auto
    from h have eq: "findDuplicateNodes nodePodsMap
                = map fst (filter (\<lambda>(nodeName, pods). 1 < length pods) nodePodsMap)"
      using findDuplicateNodes_many by blast
    from m eq signaturesLoop_step [OF ne]
    show "nodeName \<in> set (findDuplicateNodes nodePodsMap)
            \<and> findDuplicateNodes nodePodsMap
                = map fst (filter (\<lambda>(nodeName, pods). 1 < length pods) nodePodsMap)
            \<and> signaturesLoop cl config ((signature, nodePodsMap) # groups)
                  (evictedCount, skippedCount, st)
                = signaturesLoop cl config groups
                    (duplicateNodesLoop cl config nodePodsMap (findDuplicateNodes nodePodsMap)
                       (evictedCount, skippedCount,
                        emit (Infof 2 (''Found duplicates for signature '' @ signature
                                @ '' on nodes: [''
                                @ Join (findDuplicateNodes nodePodsMap) '' '' @ '']''))
                          (emit (Infof 3 (''Processing pod signature: '' @ signature)) st)))"
      by blast
  qed
  have idle: "(\<forall>(nodeName, pods) \<in> set nodePodsMap. length pods \<le> 1) \<longrightarrow>
        duplicateNodesLoop cl config nodePodsMap duplicateNodes vars = vars
        \<and> signaturesLoop cl config ((signature, nodePodsMap) # groups)
              (evictedCount, skippedCount, st)
            = signaturesLoop cl config groups
                (evictedCount, skippedCount,
                 if findDuplicateNodes nodePodsMap = []
                 then emit (Infof 3 (''Processing pod signature: '' @ signature)) st
                 else emit (Infof 2 (''Found duplicates for signature '' @ signature
                              @ '' on nodes: [''
                              @ Join (findDuplicateNodes nodePodsMap) '' '' @ '']''))
                        (emit (Infof 3 (''Processing pod signature: '' @ signature)) st))"
  proof
    assume h: "\<forall>(nodeName, pods) \<in> set nodePodsMap. length pods \<le> 1"
    show "duplicateNodesLoop cl config nodePodsMap duplicateNodes vars = vars
        \<and> signaturesLoop cl config ((signature, nodePodsMap) # groups)
              (evictedCount, skippedCount, st)
            = signaturesLoop cl config groups
                (evictedCount, skippedCount,
                 if findDuplicateNodes nodePodsMap = []
                 then emit (Infof 3 (''Processing pod signature: '' @ signature)) st
                 else emit (Infof 2 (''Found duplicates for signature '' @ signature
                              @ '' on nodes: [''
                              @ Join (findDuplicateNodes nodePodsMap) '' '' @ '']''))
                        (emit (Infof 3 (''Processing pod signature: '' @ signature)) st))"
      by (simp add: duplicateNodesLoop_idle [OF h] Let_def)
  qed
  have key: "distinct (map fst nodePodsMap) \<and> (nodeName, pods) \<in> set nodePodsMap
        \<longrightarrow> podsOn nodePodsMap nodeName = pods"
    using podsOn_distinct by blast
  have srt: "sortPodsByAge pods = sort_key CreationTimestamp pods"
    by (rule sortPodsByAge_stable)
  have rest: "1 < length (podsOn nodePodsMap nodeName) \<longrightarrow>
        duplicateNodesLoop cl config nodePodsMap (nodeName # duplicateNodes) vars
          = duplicateNodesLoop cl config nodePodsMap duplicateNodes
              (foldl (offerDuplicate cl config nodeName) vars
                 (tl (sort_key CreationTimestamp (podsOn nodePodsMap nodeName))))"
    by (simp add: Let_def evictDuplicates_fold sortPodsByAge_stable drop_Suc)
  from few skip spread sel idle key srt rest show ?thesis
    by (intro conjI)
qed

lemma sort_twins:
  "sort_key CreationTimestamp [pod_at 20 ''web-2'' ''n1'', pod_at 10 ''web-1'' ''n1'']
     = [pod_at 10 ''web-1'' ''n1'', pod_at 20 ''web-2'' ''n1'']"
  by (simp add: pod_at_def)

lemma offer_newer:
  "offerDuplicate quiet_platform (config_with True 10 5 50) ''n1'' (0, 0, NewDefaultPodEvictor)
     (pod_at 20 ''web-2'' ''n1'') =
     (1, 0,
      \<lparr>stats = \<lparr>TotalEvicted = 1, EvictedByNode = [(''n1'', 1)],
                EvictedByNamespace = [(''shop'', 1)],
                EvictedByReason =
                  [(''Duplicate pod removal - keeping oldest pod on node n1'', 1)],
                FailedEvictions = 0\<rparr>,
       klog = [Infof 0 ''[DryRun] Would evict pod shop/web-2 on node n1, reason: Duplicate pod removal - keeping oldest pod on node n1'',
               Infof 2 ''Successfully evicted duplicate pod shop/web-2 from node n1''],
       requests = []\<rparr>)"
  by (simp add: offerDuplicate_def CanEvictPod_def isSystemCriticalPod_def isDaemonSetPod_def
      isStaticPod_def isStandalonePod_def hasLocalStorage_def pod_at_def pod_on_def
      EvictPod_def checkEvictionLimits_def config_with_def updateStats_def incr_def
      lookup0_def NewDefaultPodEvictor_def empty_stats_def emit_def Let_def)

lemma twin_nodes: "findDuplicateNodes two_node_group = [''n1'']"
  by (simp add: findDuplicateNodes_def two_node_group_def Let_def)

lemma spread_nodes: "findDuplicateNodes spread_group = [''n1'']"
  by (simp add: findDuplicateNodes_def spread_group_def Let_def)

lemma twin_run:
  "duplicateNodesLoop quiet_platform (config_with True 10 5 50) two_node_group [''n1'']
     (0, 0,
      emit (Infof 2 ''Found duplicates for signature shop|ReplicaSet:web|nginx on nodes: [n1]'')
        (emit (Infof 3 ''Processing pod signature: shop|ReplicaSet:web|nginx'')
           NewDefaultPodEvictor)) =
     (1, 0,
      \<lparr>stats = \<lparr>TotalEvicted = 1, EvictedByNode = [(''n1'', 1)],
                EvictedByNamespace = [(''shop'', 1)],
                EvictedByReason =
                  [(''Duplicate pod removal - keeping oldest pod on node n1'', 1)],
                FailedEvictions = 0\<rparr>,
       klog = [Infof 3 ''Processing pod signature: shop|ReplicaSet:web|nginx'',
               Infof 2 ''Found duplicates for signature shop|ReplicaSet:web|nginx on nodes: [n1]'',
               Infof 0 ''[DryRun] Would evict pod shop/web-2 on node n1, reason: Duplicate pod removal - keeping oldest pod on node n1'',
               Infof 2 ''Successfully evicted duplicate pod shop/web-2 from node n1''],
       requests = []\<rparr>)"
proof -
  have p: "podsOn two_node_group ''n1'' = [pod_at 20 ''web-2'' ''n1'', pod_at 10 ''web-1'' ''n1'']"
    by (simp add: two_node_group_def podsOn_def)
  show ?thesis
    by (simp add: p Let_def evictDuplicates_fold sortPodsByAge_stable sort_twins)
       (simp add: offerDuplicate_def CanEvictPod_def isSystemCriticalPod_def isDaemonSetPod_def
      isStaticPod_def isStandalonePod_def hasLocalStorage_def pod_at_def pod_on_def
      EvictPod_def checkEvictionLimits_def config_with_def updateStats_def incr_def
      lookup0_def NewDefaultPodEvictor_def empty_stats_def emit_def Let_def)
qed

text \<open>
  The group with the one node \<open>n1\<close> is skipped. In the group with the nodes \<open>n1\<close>
  and \<open>n2\<close>, \<open>n1\<close> is the duplicate node; the strategy runs the loop on it, its pods
  are sorted, the older pod \<open>web-1\<close> is kept and the newer pod \<open>web-2\<close> is evicted. In
  the group with one pod on each of \<open>n1\<close> and \<open>n2\<close> a node is selected and nothing is
  evicted.
\<close>

theorem duplicates_need_two_nodes_witness:
  "length one_node_group < 2
   \<and> findDuplicateNodes one_node_group = []
   \<and> signaturesLoop quiet_platform (config_with True 10 5 50)
        [(''shop|ReplicaSet:web|nginx'', one_node_group)] (0, 0, NewDefaultPodEvictor)
       = (0, 0, emit (Infof 3 ''Processing pod signature: shop|ReplicaSet:web|nginx'')
                  NewDefaultPodEvictor)
   \<and> 2 \<le> length two_node_group
   \<and> (''n1'', [pod_at 20 ''web-2'' ''n1'', pod_at 10 ''web-1'' ''n1'']) \<in> set two_node_group
   \<and> 1 < length [pod_at 20 ''web-2'' ''n1'', pod_at 10 ''web-1'' ''n1'']
   \<and> distinct (map fst two_node_group)
   \<and> podsOn two_node_group ''n1'' = [pod_at 20 ''web-2'' ''n1'', pod_at 10 ''web-1'' ''n1'']
   \<and> ''n1'' \<in> set (findDuplicateNodes two_node_group)
   \<and> findDuplicateNodes two_node_group = [''n1'']
   \<and> signaturesLoop quiet_platform (config_with True 10 5 50)
        [(''shop|ReplicaSet:web|nginx'', two_node_group)] (0, 0, NewDefaultPodEvictor) =
       (1, 0,
        \<lparr>stats = \<lparr>TotalEvicted = 1, EvictedByNode = [(''n1'', 1)],
                  EvictedByNamespace = [(''shop'', 1)],
                  EvictedByReason =
                    [(''Duplicate pod removal - keeping oldest pod on node n1'', 1)],
                  FailedEvictions = 0\<rparr>,
         klog = [Infof 3 ''Processing pod signature: shop|ReplicaSet:web|nginx'',
                 Infof 2 ''Found duplicates for signature shop|ReplicaSet:web|nginx on nodes: [n1]'',
                 Infof 0 ''[DryRun] Would evict pod shop/web-2 on node n1, reason: Duplicate pod removal - keeping oldest pod on node n1'',
                 Infof 2 ''Successfully evicted duplicate pod shop/web-2 from node n1''],
         requests = []\<rparr>)
   \<and> sortPodsByAge [pod_at 20 ''web-2'' ''n1'', pod_at 10 ''web-1'' ''n1'']
       = [pod_at 10 ''web-1'' ''n1'', pod_at 20 ''web-2'' ''n1'']
   \<and> 1 < length (podsOn two_node_group ''n1'')
   \<and> duplicateNodesLoop quiet_platform (config_with True 10 5 50) two_node_group [''n1'']
        (0, 0, NewDefaultPodEvictor) =
       (1, 0,
        \<lparr>stats = \<lparr>TotalEvicted = 1, EvictedByNode = [(''n1'', 1)],
                  EvictedByNamespace = [(''shop'', 1)],
                  EvictedByReason =
                    [(''Duplicate pod removal - keeping oldest pod on node n1'', 1)],
                  FailedEvictions = 0\<rparr>,
         klog = [Infof 0 ''[DryRun] Would evict pod shop/web-2 on node n1, reason: Duplicate pod removal - keeping oldest pod on node n1'',
                 Infof 2 ''Successfully evicted duplicate pod shop/web-2 from node n1''],
         requests = []\<rparr>)
   \<and> 2 \<le> length spread_group
   \<and> list_all (\<lambda>(nodeName, pods). pods \<noteq> [] \<and> nodeName \<noteq> '''') spread_group
   \<and> list_all (\<lambda>(nodeName, pods). length pods \<le> 1) spread_group
   \<and> findDuplicateNodes spread_group \<noteq> []
   \<and> signaturesLoop quiet_platform (config_with True 10 5 50)
        [(''shop|ReplicaSet:web|nginx'', spread_group)] (0, 0, NewDefaultPodEvictor)
       = (0, 0,
          emit (Infof 2 ''Found duplicates for signature shop|ReplicaSet:web|nginx on nodes: [n1]'')
            (emit (Infof 3 ''Processing pod signature: shop|ReplicaSet:web|nginx'')
               NewDefaultPodEvictor))"
proof -
  let ?twins = "[pod_at 20 ''web-2'' ''n1'', pod_at 10 ''web-1'' ''n1'']"
  let ?sig = "''shop|ReplicaSet:web|nginx''"
  have l1: "length one_node_group < 2"
    by (simp add: one_node_group_def)
  have l2: "2 \<le> length two_node_group"
    and m2: "(''n1'', ?twins) \<in> set two_node_group"
    and d2: "distinct (map fst two_node_group)"
    by (simp_all add: two_node_group_def)
  have t: "1 < length ?twins" by simp
  have l3: "2 \<le> length spread_group"
    and n3: "\<forall>(nodeName, pods) \<in> set spread_group. pods \<noteq> [] \<and> nodeName \<noteq> ''''"
    and s3: "\<forall>(nodeName, pods) \<in> set spread_group. length pods \<le> 1"
    and n3': "list_all (\<lambda>(nodeName, pods). pods \<noteq> [] \<and> nodeName \<noteq> '''') spread_group"
    and s3': "list_all (\<lambda>(nodeName, pods). length pods \<le> 1) spread_group"
    by (simp_all add: spread_group_def)
  note one = duplicates_need_two_nodes [where nodePodsMap = one_node_group
      and cl = quiet_platform and config = "config_with True 10 5 50" and signature = ?sig
      and groups = "[]" and evictedCount = 0 and skippedCount = 0
      and st = NewDefaultPodEvictor]
  note two = duplicates_need_two_nodes [where nodePodsMap = two_node_group
      and nodeName = "''n1''" and pods = ?twins and cl = quiet_platform
      and config = "config_with True 10 5 50" and duplicateNodes = "[]"
      and vars = "(0, 0, NewDefaultPodEvictor)" and signature = ?sig
      and groups = "[]" and evictedCount = 0 and skippedCount = 0
      and st = NewDefaultPodEvictor]
  note three = duplicates_need_two_nodes [where nodePodsMap = spread_group
      and cl = quiet_platform and config = "config_with True 10 5 50" and signature = ?sig
      and groups = "[]" and evictedCount = 0 and skippedCount = 0
      and st = NewDefaultPodEvictor]
  from one l1 have a: "findDuplicateNodes one_node_group = []"
    by blast
  from one l1 have "signaturesLoop quiet_platform (config_with True 10 5 50)
        [(?sig, one_node_group)] (0, 0, NewDefaultPodEvictor)
      = signaturesLoop quiet_platform (config_with True 10 5 50) []
          (0, 0, emit (Infof 3 (''Processing pod signature: '' @ ?sig)) NewDefaultPodEvictor)"
    by blast
  then have a': "signaturesLoop quiet_platform (config_with True 10 5 50)
        [(?sig, one_node_group)] (0, 0, NewDefaultPodEvictor)
       = (0, 0, emit (Infof 3 ''Processing pod signature: shop|ReplicaSet:web|nginx'')
                  NewDefaultPodEvictor)"
    by simp
  from two d2 m2 have p2: "podsOn two_node_group ''n1'' = ?twins"
    by blast
  then have t': "1 < length (podsOn two_node_group ''n1'')"
    by simp
  from two l2 m2 t have b: "''n1'' \<in> set (findDuplicateNodes two_node_group)"
    by blast
  from two l2 m2 t have "signaturesLoop quiet_platform (config_with True 10 5 50)
        [(?sig, two_node_group)] (0, 0, NewDefaultPodEvictor)
      = signaturesLoop quiet_platform (config_with True 10 5 50) []
          (duplicateNodesLoop quiet_platform (config_with True 10 5 50) two_node_group
             (findDuplicateNodes two_node_group)
             (0, 0,
              emit (Infof 2 (''Found duplicates for signature '' @ ?sig @ '' on nodes: [''
                      @ Join (findDuplicateNodes two_node_group) '' '' @ '']''))
                (emit (Infof 3 (''Processing pod signature: '' @ ?sig)) NewDefaultPodEvictor)))"
    by blast
  also have "\<dots> = duplicateNodesLoop quiet_platform (config_with True 10 5 50) two_node_group
     [''n1'']
     (0, 0,
      emit (Infof 2 ''Found duplicates for signature shop|ReplicaSet:web|nginx on nodes: [n1]'')
        (emit (Infof 3 ''Processing pod signature: shop|ReplicaSet:web|nginx'')
           NewDefaultPodEvictor))"
    by (simp add: twin_nodes)
  finally have run: "signaturesLoop quiet_platform (config_with True 10 5 50)
        [(?sig, two_node_group)] (0, 0, NewDefaultPodEvictor)
      = duplicateNodesLoop quiet_platform (config_with True 10 5 50) two_node_group
     [''n1'']
     (0, 0,
      emit (Infof 2 ''Found duplicates for signature shop|ReplicaSet:web|nginx on nodes: [n1]'')
        (emit (Infof 3 ''Processing pod signature: shop|ReplicaSet:web|nginx'')
           NewDefaultPodEvictor))" .
  from two have "sortPodsByAge ?twins = sort_key CreationTimestamp ?twins"
    by blast
  then have c: "sortPodsByAge ?twins = [pod_at 10 ''web-1'' ''n1'', pod_at 20 ''web-2'' ''n1'']"
    by (simp only: sort_twins)
  from two t' have "duplicateNodesLoop quiet_platform (config_with True 10 5 50) two_node_group
        [''n1''] (0, 0, NewDefaultPodEvictor)
      = duplicateNodesLoop quiet_platform (config_with True 10 5 50) two_node_group []
          (foldl (offerDuplicate quiet_platform (config_with True 10 5 50) ''n1'')
             (0, 0, NewDefaultPodEvictor)
             (tl (sort_key CreationTimestamp (podsOn two_node_group ''n1''))))"
    by blast
  also have "\<dots> = offerDuplicate quiet_platform (config_with True 10 5 50) ''n1''
             (0, 0, NewDefaultPodEvictor) (pod_at 20 ''web-2'' ''n1'')"
    by (simp only: p2 sort_twins) simp
  finally have d: "duplicateNodesLoop quiet_platform (config_with True 10 5 50) two_node_group
        [''n1''] (0, 0, NewDefaultPodEvictor)
      = offerDuplicate quiet_platform (config_with True 10 5 50) ''n1''
             (0, 0, NewDefaultPodEvictor) (pod_at 20 ''web-2'' ''n1'')" .
  from three l3 n3 have e: "findDuplicateNodes spread_group \<noteq> []"
    by blast
  from three s3 have "signaturesLoop quiet_platform (config_with True 10 5 50)
        [(?sig, spread_group)] (0, 0, NewDefaultPodEvictor)
      = signaturesLoop quiet_platform (config_with True 10 5 50) []
          (0, 0,
           if findDuplicateNodes spread_group = []
           then emit (Infof 3 (''Processing pod signature: '' @ ?sig)) NewDefaultPodEvictor
           else emit (Infof 2 (''Found duplicates for signature '' @ ?sig @ '' on nodes: [''
                        @ Join (findDuplicateNodes spread_group) '' '' @ '']''))
                  (emit (Infof 3 (''Processing pod signature: '' @ ?sig)) NewDefaultPodEvictor))"
    by blast
  then have f: "signaturesLoop quiet_platform (config_with True 10 5 50)
        [(?sig, spread_group)] (0, 0, NewDefaultPodEvictor)
       = (0, 0,
          emit (Infof 2 ''Found duplicates for signature shop|ReplicaSet:web|nginx on nodes: [n1]'')
            (emit (Infof 3 ''Processing pod signature: shop|ReplicaSet:web|nginx'')
               NewDefaultPodEvictor))"
    by (simp add: spread_nodes)
  from l1 a a' l2 m2 t d2 p2 b twin_nodes run c t' d l3 n3' s3' e f show ?thesis
    by (simp only: offer_newer twin_run simp_thms)
qed

section \<open>The interval 0\<close>

text \<open>
  What the parts of the program do with the interval. \<open>Run\<close> with an interval of 0
  runs one cycle and returns what the cycle returns. \<open>validateConfig\<close> refuses every
  interval below one minute, zero and negative ones as well, and \<open>setDefaults\<close>, which
  runs first, replaces 0 by five minutes: no configuration that \<open>LoadConfig\<close> returns
  has an interval below one minute.
\<close>

lemma Run_interval_zero:
  assumes "Interval config = 0"
  shows "Run cl clk config strategies events st =
           (let st1 = emits [Infof 0 ''Starting lightweight descheduler'',
                             Infof 0 (''Configuration: DryRun='' @ show_bool (DryRun config)
                               @ '', Interval='' @ Duration_String clk (Interval config))] st;
                st2 = (if DryRun config
                       then emit (Infof 0
                              ''Running in DRY RUN mode - no pods will actually be evicted'') st1
                       else st1)
            in (Returned (fst (runOnce cl clk config strategies st2)),
                snd (runOnce cl clk config strategies st2)))"
  using assms
  by (simp add: Run_def Let_def split: prod.splits)

lemma validateConfig_interval:
  "Interval config < Minute \<Longrightarrow>
     validateConfig config = Some (Invalid ''interval must be at least 1 minute'')"
  by (simp add: validateConfig_def)

lemma setDefaults_interval:
  "Interval (snd (setDefaults config)) = (if Interval config = 0 then 5 * Minute else Interval config)"
  by (simp add: setDefaults_def Let_def)

lemma LoadConfig_interval:
  assumes "LoadConfig ReadFile Unmarshal filepath = Inr config"
  shows "Minute \<le> Interval config"
proof -
  from assms obtain data parsed where
    "Unmarshal data = Inr parsed" and c: "config = snd (setDefaults parsed)"
    and v: "validateConfig (snd (setDefaults parsed)) = None"
    by (auto simp: LoadConfig_def split: sum.splits prod.splits option.splits)
  from v have "\<not> Interval (snd (setDefaults parsed)) < Minute"
    by (auto simp: validateConfig_def split: if_splits)
  with c show ?thesis by simp
qed

text \<open>
  Claim C7 at a file that sets the interval to 0. \<open>LoadConfig\<close> accepts the file, but
  as a configuration with an interval of five minutes (300000000000 nanoseconds); with
  it \<open>Run\<close> runs its first cycle, then waits for the ticker, and has not returned.
  With an interval of 0 itself, \<open>Run\<close> on the same cluster has returned after the one
  cycle.
\<close>

theorem interval_zero_is_replaced:
  "LoadConfig read_file unmarshal_interval_zero ''config.yaml'' = Inr (config_with True 10 5 50)
   \<and> Interval (config_with True 10 5 50) = 300000000000
   \<and> fst (Run lonely_platform stopped_clock (config_with True 10 5 50) [eager_strategy] []
            NewDefaultPodEvictor) = Waiting
   \<and> fst (Run lonely_platform stopped_clock ((config_with True 10 5 50)\<lparr>Interval := 0\<rparr>)
            [eager_strategy] [] NewDefaultPodEvictor) = Returned None"
proof -
  have l: "LoadConfig read_file unmarshal_interval_zero ''config.yaml''
             = Inr (config_with True 10 5 50)"
    by (simp add: LoadConfig_def read_file_def unmarshal_interval_zero_def
        parsed_interval_zero_def setDefaults_def validateConfig_def validateStrategies_def
        config_with_def Minute_def Let_def)
  have i: "Interval (config_with True 10 5 50) = 300000000000"
    by (simp add: config_with_def Minute_def)
  have w: "fst (Run lonely_platform stopped_clock (config_with True 10 5 50) [eager_strategy] []
            NewDefaultPodEvictor) = Waiting"
    by (simp add: Run_def Let_def i split: prod.splits option.splits)
  have z: "Interval ((config_with True 10 5 50)\<lparr>Interval := 0\<rparr>) = 0"
    by simp
  have n: "Nodes_List lonely_platform sent = Inr [ready_node ''n1'']" for sent
    by (simp add: lonely_platform_def)
  have a: "FilterReadySchedulableNodes [ready_node ''n1''] = [ready_node ''n1'']"
    by (simp add: FilterReadySchedulableNodes_def ready_node_def IsReadyNode_def
        IsSchedulableNode_def)
  have once: "fst (runOnce lonely_platform stopped_clock config [eager_strategy] st) = None"
    for config st
    by (simp add: runOnce_def Let_def getAvailableNodes_eq [OF n] a)
  have r: "fst (Run lonely_platform stopped_clock ((config_with True 10 5 50)\<lparr>Interval := 0\<rparr>)
            [eager_strategy] [] NewDefaultPodEvictor) = Returned None"
    by (simp only: Run_interval_zero [OF z] Let_def fst_conv once)
  from l i w r show ?thesis by blast
qed

section \<open>The signature of a pod\<close>

lemma GetPodImages_mset:
  "GetPodImages p = GetPodImages q
     \<longleftrightarrow> mset (map Image (Containers p)) = mset (map Image (Containers q))"
proof
  assume "GetPodImages p = GetPodImages q"
  then have "mset (GetPodImages p) = mset (GetPodImages q)"
    by simp
  then show "mset (map Image (Containers p)) = mset (map Image (Containers q))"
    by (simp add: GetPodImages_def)
next
  assume "mset (map Image (Containers p)) = mset (map Image (Containers q))"
  then have "sort (map Image (Containers p)) = sort (map Image (Containers q))"
    by (intro properties_for_sort) simp_all
  then show "GetPodImages p = GetPodImages q"
    by (simp add: GetPodImages_def)
qed

text \<open>
  Claim C8, as the claim states it, fails. Two pods of one namespace and one replica
  set, the one with one container of the image \<open>nginx\<close>, the other with two containers
  of that image: they agree on the namespace, on the owner references and on the set of
  images, and their signatures differ.
\<close>

theorem repeated_image_changes_signature:
  "Namespace (with_images ''web-1'' ''n1'' [''nginx''])
     = Namespace (with_images ''web-2'' ''n1'' [''nginx'', ''nginx''])
   \<and> OwnerReferences (with_images ''web-1'' ''n1'' [''nginx''])
     = OwnerReferences (with_images ''web-2'' ''n1'' [''nginx'', ''nginx''])
   \<and> set (GetPodImages (with_images ''web-1'' ''n1'' [''nginx'']))
     = set (GetPodImages (with_images ''web-2'' ''n1'' [''nginx'', ''nginx'']))
   \<and> GeneratePodSignature (with_images ''web-1'' ''n1'' [''nginx''])
     = ''shop|ReplicaSet:web|nginx''
   \<and> GeneratePodSignature (with_images ''web-2'' ''n1'' [''nginx'', ''nginx''])
     = ''shop|ReplicaSet:web|nginx,nginx''
   \<and> GeneratePodSignature (with_images ''web-1'' ''n1'' [''nginx''])
     \<noteq> GeneratePodSignature (with_images ''web-2'' ''n1'' [''nginx'', ''nginx''])"
  by (simp add: GeneratePodSignature_def GetPodImages_def with_images_def Let_def)

text \<open>
  Claim C8, amended. The signature is a function of three components of the pod and of
  nothing else: its namespace, its owner references in their order, and the sorted list
  of its images, repetitions kept (\<open>GetPodImages\<close>: the images of the containers,
  sorted, an image as often as containers use it; two pods have the same list exactly
  when their containers have the same images as often, in whatever order). It is the
  text the specification gives for these components. So two pods that agree on the
  three components have the same signature, and two pods whose signatures differ differ
  in one of the three.
\<close>

theorem signature_depends_only_on:
  "GeneratePodSignature p = spec_Signature (Namespace p) (OwnerReferences p) (GetPodImages p)
   \<and> sorted (GetPodImages p)
   \<and> mset (GetPodImages p) = mset (map Image (Containers p))
   \<and> (GetPodImages p = GetPodImages q
        \<longleftrightarrow> mset (map Image (Containers p)) = mset (map Image (Containers q)))
   \<and> (Namespace p = Namespace q \<and> OwnerReferences p = OwnerReferences q
        \<and> GetPodImages p = GetPodImages q
      \<longrightarrow> GeneratePodSignature p = GeneratePodSignature q)
   \<and> (GeneratePodSignature p \<noteq> GeneratePodSignature q
      \<longrightarrow> Namespace p \<noteq> Namespace q \<or> OwnerReferences p \<noteq> OwnerReferences q
          \<or> GetPodImages p \<noteq> GetPodImages q)"
proof -
  have 1: "GeneratePodSignature p
             = spec_Signature (Namespace p) (OwnerReferences p) (GetPodImages p)" for p
    by (simp add: GeneratePodSignature_def spec_Signature_def Let_def)
  have 2: "sorted (GetPodImages p)"
    and 3: "mset (GetPodImages p) = mset (map Image (Containers p))"
    by (simp_all add: GetPodImages_def)
  note 4 = GetPodImages_mset [of p q]
  have 5: "Namespace p = Namespace q \<and> OwnerReferences p = OwnerReferences q
        \<and> GetPodImages p = GetPodImages q
      \<longrightarrow> GeneratePodSignature p = GeneratePodSignature q"
    by (simp add: 1)
  then have 6: "GeneratePodSignature p \<noteq> GeneratePodSignature q
      \<longrightarrow> Namespace p \<noteq> Namespace q \<or> OwnerReferences p \<noteq> OwnerReferences q
          \<or> GetPodImages p \<noteq> GetPodImages q"
    by blast
  from 1 [of p] 2 3 4 5 6 show ?thesis
    by (intro conjI)
qed

text \<open>
  Two pods of one replica set, with other names, on other nodes, their containers in
  another order: the signature is the same.
\<close>

theorem signature_depends_only_on_witness:
  "Namespace (with_images ''web-1'' ''n1'' [''nginx'', ''envoy''])
     = Namespace (with_images ''web-2'' ''n2'' [''envoy'', ''nginx''])
   \<and> OwnerReferences (with_images ''web-1'' ''n1'' [''nginx'', ''envoy''])
     = OwnerReferences (with_images ''web-2'' ''n2'' [''envoy'', ''nginx''])
   \<and> GetPodImages (with_images ''web-1'' ''n1'' [''nginx'', ''envoy''])
     = GetPodImages (with_images ''web-2'' ''n2'' [''envoy'', ''nginx''])
   \<and> GeneratePodSignature (with_images ''web-1'' ''n1'' [''nginx'', ''envoy''])
     = GeneratePodSignature (with_images ''web-2'' ''n2'' [''envoy'', ''nginx''])
   \<and> GeneratePodSignature (with_images ''web-1'' ''n1'' [''nginx'', ''envoy''])
     = ''shop|ReplicaSet:web|envoy,nginx''"
proof -
  let ?A = "with_images ''web-1'' ''n1'' [''nginx'', ''envoy'']"
  let ?B = "with_images ''web-2'' ''n2'' [''envoy'', ''nginx'']"
  have n: "Namespace ?A = Namespace ?B"
    by (simp add: with_images_def)
  have o: "OwnerReferences ?A = OwnerReferences ?B"
    by (simp add: with_images_def)
  have i1: "GetPodImages ?A = [''envoy'', ''nginx'']"
    by (simp add: GetPodImages_def with_images_def)
  have i2: "GetPodImages ?B = [''envoy'', ''nginx'']"
    by (simp add: GetPodImages_def with_images_def)
  have i: "GetPodImages ?A = GetPodImages ?B"
    by (simp only: i1 i2)
  have s: "spec_Signature ''shop'' [\<lparr>owner_Kind = ''ReplicaSet'', owner_Name = ''web''\<rparr>]
             [''envoy'', ''nginx''] = ''shop|ReplicaSet:web|envoy,nginx''"
    by (simp add: spec_Signature_def)
  have na: "Namespace ?A = ''shop''"
    by (simp add: with_images_def)
  have oa: "OwnerReferences ?A = [\<lparr>owner_Kind = ''ReplicaSet'', owner_Name = ''web''\<rparr>]"
    by (simp add: with_images_def)
  note t = signature_depends_only_on [of ?A ?B]
  from t have "GeneratePodSignature ?A
      = spec_Signature (Namespace ?A) (OwnerReferences ?A) (GetPodImages ?A)"
    by (rule conjunct1)
  then have ga: "GeneratePodSignature ?A = ''shop|ReplicaSet:web|envoy,nginx''"
    by (simp only: na oa i1 s)
  from t have "Namespace ?A = Namespace ?B \<and> OwnerReferences ?A = OwnerReferences ?B
        \<and> GetPodImages ?A = GetPodImages ?B
      \<longrightarrow> GeneratePodSignature ?A = GeneratePodSignature ?B"
    by blast
  with n o i have eq: "GeneratePodSignature ?A = GeneratePodSignature ?B"
    by blast
  from n o i eq ga show ?thesis
    by blast
qed

section \<open>A cycle with fewer than two nodes\<close>

lemma availabilityLine_level: "availabilityLine node \<noteq> Infof 0 text"
  by (simp add: availabilityLine_def)

text \<open>
  Claim C9, as the claim states it, fails. With one ready node the cycle logs that it is
  skipped and returns: the line \<open>=== Cycle Statistics ===\<close> and the lines of the
  summary that follow it are not written, nor is the line that ends a cycle.
\<close>

theorem few_nodes_no_summary:
  "runOnce lonely_platform stopped_clock (config_with True 10 5 50) [eager_strategy]
     NewDefaultPodEvictor =
     (None,
      \<lparr>stats = empty_stats,
       klog = [Infof 0 ''=== Starting descheduling cycle ==='',
               Infof 2 ''Node n1 is available for descheduling'',
               Infof 0 ''Found 1 available nodes'',
               Infof 0 ''Need at least 2 nodes for descheduling, found 1. Skipping cycle.''],
       requests = []\<rparr>)"
  by (simp add: runOnce_def Let_def ResetStats_def emit_def getAvailableNodes_def
      lonely_platform_def ready_node_def IsReadyNode_def IsSchedulableNode_def
      NewDefaultPodEvictor_def show_nat.simps)

text \<open>
  Claim C9, amended. In every cycle in which fewer than 2 of the listed nodes are ready
  and schedulable, the controller resets the statistics, logs the start of the cycle,
  one line for each listed node, the number of nodes found and that the cycle is skipped,
  and returns without an error. It runs no strategy (the outcome does not depend on the
  strategies), sends nothing to the platform and performs no summary step: no cycle
  summary is written.
\<close>

theorem few_nodes_skip_cycle:
  assumes "Nodes_List cl (requests st) = Inr items"
    and "length (FilterReadySchedulableNodes items) < 2"
  shows "runOnce cl clk config strategies st =
           (None,
            st\<lparr>stats := empty_stats,
               klog := klog st
                 @ [Infof 0 ''=== Starting descheduling cycle ===''] @ map availabilityLine items
                 @ [Infof 0 (''Found '' @ show_nat (length (FilterReadySchedulableNodes items))
                       @ '' available nodes''),
                    Infof 0 (''Need at least 2 nodes for descheduling, found ''
                       @ show_nat (length (FilterReadySchedulableNodes items))
                       @ ''. Skipping cycle.'')]\<rparr>)
         \<and> Infof 0 ''=== Cycle Statistics ===''
             \<notin> set (drop (length (klog st)) (klog (snd (runOnce cl clk config strategies st))))
         \<and> requests (snd (runOnce cl clk config strategies st)) = requests st"
proof -
  have r: "runOnce cl clk config strategies st =
           (None,
            st\<lparr>stats := empty_stats,
               klog := klog st
                 @ [Infof 0 ''=== Starting descheduling cycle ===''] @ map availabilityLine items
                 @ [Infof 0 (''Found '' @ show_nat (length (FilterReadySchedulableNodes items))
                       @ '' available nodes''),
                    Infof 0 (''Need at least 2 nodes for descheduling, found ''
                       @ show_nat (length (FilterReadySchedulableNodes items))
                       @ ''. Skipping cycle.'')]\<rparr>)"
    using assms
    by (simp add: runOnce_def Let_def ResetStats_def emit_def getAvailableNodes_eq)
  have level: "Infof 0 ''=== Cycle Statistics ==='' \<notin> set (map availabilityLine items)"
    by (auto simp: availabilityLine_def)
  show ?thesis
    using level by (simp add: r)
qed

text \<open>The cluster with one ready node.\<close>

theorem few_nodes_skip_cycle_witness:
  "Nodes_List lonely_platform (requests NewDefaultPodEvictor) = Inr [ready_node ''n1'']
   \<and> length (FilterReadySchedulableNodes [ready_node ''n1'']) < 2
   \<and> klog (snd (runOnce lonely_platform stopped_clock (config_with True 10 5 50)
                  [eager_strategy] NewDefaultPodEvictor))
       = [Infof 0 ''=== Starting descheduling cycle ==='', availabilityLine (ready_node ''n1''),
          Infof 0 ''Found 1 available nodes'',
          Infof 0 ''Need at least 2 nodes for descheduling, found 1. Skipping cycle.'']
   \<and> stats (snd (runOnce lonely_platform stopped_clock (config_with True 10 5 50)
                  [eager_strategy] NewDefaultPodEvictor)) = empty_stats"
proof -
  have a: "Nodes_List lonely_platform (requests NewDefaultPodEvictor) = Inr [ready_node ''n1'']"
    by (simp add: lonely_platform_def)
  have f: "FilterReadySchedulableNodes [ready_node ''n1''] = [ready_node ''n1'']"
    by (simp add: FilterReadySchedulableNodes_def ready_node_def IsReadyNode_def
        IsSchedulableNode_def)
  have b: "length (FilterReadySchedulableNodes [ready_node ''n1'']) < 2"
    by (simp add: f)
  from few_nodes_skip_cycle [OF a b, of stopped_clock "config_with True 10 5 50"
      "[eager_strategy]"] a b
  show ?thesis
    by (simp add: f NewDefaultPodEvictor_def show_nat.simps)
qed

section \<open>A pod without a node name\<close>

text \<open>
  Claim C10. For a pod whose node name is the empty string the node quota is not
  checked (the answer of the quota check does not depend on the map of the nodes; the
  total and the namespace quota still apply) and a successful eviction leaves the map
  of the nodes as it is, while the total and the count of the namespace rise by one.
  So after the reset of a cycle and any sequence of \<open>EvictPod\<close> and \<open>ResetStats\<close>
  calls the map of the nodes does not have the empty string as a key.
\<close>

theorem empty_node_name_never_counted:
  "(NodeName pod = '''' \<longrightarrow>
       checkEvictionLimits config (s\<lparr>EvictedByNode := m\<rparr>) pod = checkEvictionLimits config s pod
     \<and> checkEvictionLimits config s pod =
         (if totalReached config s
            then Some (TotalLimit (MaxPodsToEvictTotal (Limits config)))
          else if namespaceReached config s pod
            then Some (NamespaceLimit (Namespace pod)
                         (MaxPodsToEvictPerNamespace (Limits config)))
          else None)
     \<and> EvictedByNode (updateStats pod reason True s) = EvictedByNode s
     \<and> TotalEvicted (updateStats pod reason True s) = TotalEvicted s + 1
     \<and> lookup0 (EvictedByNamespace (updateStats pod reason True s)) (Namespace pod)
         = lookup0 (EvictedByNamespace s) (Namespace pod) + 1)
   \<and> '''' \<notin> keys (EvictedByNode (stats (run cl config ops (ResetStats st))))"
proof -
  have step: "'''' \<notin> keys (EvictedByNode (stats st'))
      \<Longrightarrow> '''' \<notin> keys (EvictedByNode (stats (snd (EvictPod cl config p r st'))))" for st' p r
    by (auto simp: EvictPod_stats updateStats_fields keys_incr split: option.splits)
  have inv: "'''' \<notin> keys (EvictedByNode (stats st'))
      \<Longrightarrow> '''' \<notin> keys (EvictedByNode (stats (run cl config ops st')))" for st'
  proof (induction ops arbitrary: st')
    case Nil
    then show ?case by simp
  next
    case (Cons op ops)
    show ?case
    proof (cases op)
      case (Evict_op p r)
      with Cons step show ?thesis by simp
    next
      case Reset_op
      with Cons show ?thesis by (simp add: ResetStats_def empty_stats_def keys_def)
    qed
  qed
  have "'''' \<notin> keys (EvictedByNode (stats (run cl config ops (ResetStats st))))"
    by (rule inv) (simp add: ResetStats_def empty_stats_def keys_def)
  then show ?thesis
    by (simp add: checkEvictionLimits_cases totalReached_def nodeReached_def
        namespaceReached_def updateStats_fields lookup0_incr)
qed

text \<open>
  A pod that is bound to no node is evicted in a dry run: it is counted in the total and
  in its namespace, and the map of the nodes stays empty.
\<close>

theorem empty_node_name_never_counted_witness:
  "NodeName (pod_on ''shop'' ''web-9'' '''') = ''''
   \<and> checkEvictionLimits (config_with True 1 2 5) empty_stats (pod_on ''shop'' ''web-9'' '''')
       = None
   \<and> stats (run quiet_platform (config_with True 1 2 5)
        [Evict_op (pod_on ''shop'' ''web-9'' '''') ''test''] (ResetStats NewDefaultPodEvictor))
       = \<lparr>TotalEvicted = 1, EvictedByNode = [], EvictedByNamespace = [(''shop'', 1)],
          EvictedByReason = [(''test'', 1)], FailedEvictions = 0\<rparr>
   \<and> '''' \<notin> keys (EvictedByNode (stats (run quiet_platform (config_with True 1 2 5)
        [Evict_op (pod_on ''shop'' ''web-9'' '''') ''test''] (ResetStats NewDefaultPodEvictor))))"
proof -
  have n: "NodeName (pod_on ''shop'' ''web-9'' '''') = ''''"
    by (simp add: pod_on_def)
  have r: "stats (run quiet_platform (config_with True 1 2 5)
        [Evict_op (pod_on ''shop'' ''web-9'' '''') ''test''] (ResetStats NewDefaultPodEvictor))
       = \<lparr>TotalEvicted = 1, EvictedByNode = [], EvictedByNamespace = [(''shop'', 1)],
          EvictedByReason = [(''test'', 1)], FailedEvictions = 0\<rparr>"
    by (simp add: EvictPod_def checkEvictionLimits_def config_with_def
      pod_on_def NewDefaultPodEvictor_def ResetStats_def empty_stats_def lookup0_def
      updateStats_def incr_def Let_def emit_def)
  from empty_node_name_never_counted [where pod = "pod_on ''shop'' ''web-9'' ''''"
      and config = "config_with True 1 2 5" and s = empty_stats and m = "[]"
      and reason = "''test''" and cl = quiet_platform
      and ops = "[Evict_op (pod_on ''shop'' ''web-9'' '''') ''test'']"
      and st = NewDefaultPodEvictor] n r
  show ?thesis
    by (simp add: totalReached_def namespaceReached_def config_with_def empty_stats_def
        lookup0_def)
qed

end
